theory Spec2Isabelle
  imports Complex_Main
begin

unbundle bit_operations_syntax

section \<open>Data model of the default 3D pipeline\<close>

text \<open>
  The development follows \<^verbatim>\<open>src/pipelines/default_3d_pipeline.ts\<close>. A JavaScript
  number is a \<^typ>\<open>real\<close>; a \<^verbatim>\<open>Float32Array\<close> is the list of its elements, and
  building one from numbers converts every element with the 32-bit rounding function,
  which is a parameter \<open>fround\<close> of the model. Object handles that the WebGPU device
  gives out (texture views, textures, mesh buffers, the compiled pipeline) are natural
  numbers.
\<close>

definition DEFAULT_3D_UNIFORM_DATA_SIZE_FLOAT :: nat where
  "DEFAULT_3D_UNIFORM_DATA_SIZE_FLOAT = 4 + 4 * 4 + 4 * 4 + 10 * 4 * 2"

definition Float32Array :: "(real \<Rightarrow> real) \<Rightarrow> real list \<Rightarrow> real list" where
  "Float32Array fround xs = map fround xs"

text \<open>The values of \<^verbatim>\<open>GPUBufferUsage\<close> that the file uses.\<close>

definition GPUBufferUsage_COPY_DST :: nat where "GPUBufferUsage_COPY_DST = 8"
definition GPUBufferUsage_UNIFORM :: nat where "GPUBufferUsage_UNIFORM = 64"
definition GPUBufferUsage_STORAGE :: nat where "GPUBufferUsage_STORAGE = 128"

text \<open>
  A \<^verbatim>\<open>GPUBuffer\<close>: its identity, its size in bytes, the floats it holds (four bytes
  each) and its usage flags.
\<close>

record GPUBuffer =
  buffer_id :: nat
  buffer_size :: nat
  contents :: "real list"
  usage :: nat

record model_data =
  vertex_data_gpu :: nat
  indices_gpu :: nat
  index_count :: nat

text \<open>
  A scene object, as far as \<^verbatim>\<open>render\<close> reads it: the routing key, the results of
  the three texture-presence predicates, the three texture identifiers (possibly
  undefined), the model matrix, and what the asynchronous \<^verbatim>\<open>get_model_data\<close> gives:
  \<open>None\<close> is a rejected promise, \<open>Some md\<close> the mesh data it resolves to.
\<close>

record scene_object =
  pipeline_key :: string
  has_texture_diffuse :: bool
  has_texture_specular :: bool
  has_texture_normal :: bool
  texture_diffuse :: "string option"
  texture_specular :: "string option"
  texture_normal :: "string option"
  get_model_matrix :: "real list"
  get_model_data :: "model_data option"

record light =
  position :: "real list"
  color :: "real list"

record camera =
  get_view_matrix :: "real list"
  get_projection_matrix :: "real list"

text \<open>
  The scene. \<open>load_texture\<close> is the texture manager's asynchronous resolver: \<open>None\<close> is
  a rejected promise, \<open>Some t\<close> the texture it resolves to.
\<close>

record scene =
  objects :: "scene_object list"
  lights :: "light list"
  camera :: camera
  texture_view :: "nat option"
  depth_texture_view :: "nat option"
  load_texture :: "string option \<Rightarrow> nat option"

record Default3DPipeLine =
  shader_path :: string
  gpu_pipeline :: nat
  model_transforms :: "GPUBuffer option"
  uniform_buffer :: "GPUBuffer option"

text \<open>
  What one bind-group entry refers to: a buffer range (buffer, offset, size), a sampler,
  or a view of a texture.
\<close>

datatype binding_resource =
  BufferBinding nat nat nat
  | SamplerBinding
  | TextureViewBinding nat

text \<open>
  Everything \<^verbatim>\<open>render\<close> does to the outside, in the order it does it. The two
  \<open>Await\<close> events are the suspension points of the asynchronous function; every other
  event is a command given to the device, the queue or the render pass.
\<close>

datatype event =
  BeginRenderPass nat nat
  | SetPipeline nat
  | AwaitLoadTexture "string option"
  | DestroyBuffer nat
  | CreateBuffer nat nat "real list" nat
  | WriteBuffer nat nat "real list"
  | CreateSampler
  | CreateBindGroup "(nat \<times> binding_resource) list"
  | SetBindGroup nat
  | AwaitGetModelData
  | SetVertexBuffer nat nat
  | SetIndexBuffer nat
  | DrawIndexed nat nat nat nat nat
  | EndPass

fun is_await :: "event \<Rightarrow> bool" where
  "is_await (AwaitLoadTexture _) = True"
| "is_await AwaitGetModelData = True"
| "is_await _ = False"

definition is_gpu_command :: "event \<Rightarrow> bool" where
  "is_gpu_command e = (\<not> is_await e)"

text \<open>
  \<^verbatim>\<open>SystemCore\<close>: the global device and command encoder. The model keeps the next
  unused buffer identity and the events so far, oldest first.
\<close>

record SystemCore =
  next_buffer_id :: nat
  events :: "event list"

datatype error =
  TextureLoadRejected "string option"
  | ModelDataRejected
  | TypeError

definition emit :: "event list \<Rightarrow> SystemCore \<Rightarrow> SystemCore" where
  "emit es sys = sys\<lparr>events := events sys @ es\<rparr>"

section \<open>Device operations\<close>

text \<open>
  Modelled from the spec: \<^verbatim>\<open>create_gpu_buffer\<close> of \<^verbatim>\<open>src/util/gpu_util\<close>, which
  is not among the sources. Section 4.2: it allocates a buffer sized to the initial
  data, uploads the data and returns the handle. A \<^verbatim>\<open>Float32Array\<close> of \<open>n\<close> elements
  has \<open>4 * n\<close> bytes. Allocation is taken to succeed.
\<close>

definition create_gpu_buffer ::
  "real list \<Rightarrow> nat \<Rightarrow> SystemCore \<Rightarrow> GPUBuffer \<times> SystemCore" where
  "create_gpu_buffer initial_data usage_flags sys =
     (let b = \<lparr>buffer_id = next_buffer_id sys,
                buffer_size = 4 * length initial_data,
                contents = initial_data,
                usage = usage_flags\<rparr>
      in (b, emit [CreateBuffer (buffer_id b) (buffer_size b) initial_data usage_flags]
               (sys\<lparr>next_buffer_id := Suc (next_buffer_id sys)\<rparr>)))"

text \<open>
  \<^verbatim>\<open>device.queue.writeBuffer(buffer, offset, data)\<close> of WebGPU. The call is always
  queued; the device overwrites the range starting at the byte offset when the range
  lies inside the buffer and leaves the buffer as it is otherwise (a validation error
  on the device, which does not throw).
\<close>

definition overwrite :: "GPUBuffer \<Rightarrow> nat \<Rightarrow> real list \<Rightarrow> GPUBuffer" where
  "overwrite b offset data =
     (if offset mod 4 = 0 \<and> offset + 4 * length data \<le> buffer_size b
      then b\<lparr>contents := take (offset div 4) (contents b) @ data
                @ drop (offset div 4 + length data) (contents b)\<rparr>
      else b)"

definition writeBuffer ::
  "GPUBuffer \<Rightarrow> nat \<Rightarrow> real list \<Rightarrow> SystemCore \<Rightarrow> GPUBuffer \<times> SystemCore" where
  "writeBuffer b offset data sys =
     (overwrite b offset data, emit [WriteBuffer (buffer_id b) offset data] sys)"

section \<open>The pipeline\<close>

definition get_pipeline_label :: string where
  "get_pipeline_label = ''default_3d''"

text \<open>
  \<^verbatim>\<open>construct_pipeline\<close> from line 149 on, that is once the shader is resolved and
  the device has compiled the pipeline state, whose handle is the parameter
  \<open>pipeline\<close>: the new instance has the shader path it was asked for, no transform
  buffer, and a uniform buffer made from \<^verbatim>\<open>new Float32Array(116)\<close>, which is 116
  zeros.
\<close>

definition construct_pipeline ::
  "string \<Rightarrow> nat \<Rightarrow> SystemCore \<Rightarrow> Default3DPipeLine \<times> SystemCore" where
  "construct_pipeline path pipeline sys =
     (let (ub, sys') = create_gpu_buffer
            (replicate DEFAULT_3D_UNIFORM_DATA_SIZE_FLOAT 0)
            (GPUBufferUsage_UNIFORM OR GPUBufferUsage_COPY_DST) sys
      in (\<lparr>shader_path = path, gpu_pipeline = pipeline,
            model_transforms = None, uniform_buffer = Some ub\<rparr>, sys'))"

text \<open>Lines 203 to 205: a presence predicate as the float \<open>1.0\<close> or \<open>0.0\<close>.\<close>

definition flag :: "bool \<Rightarrow> real" where
  "flag b = (if b then 1.0 else 0.0)"

text \<open>
  Lines 244 to 247: the reduction over the lights, from the empty accumulator; each
  light appends its position, the literal \<open>0.0\<close> and its colour.
\<close>

definition pack_lights :: "light list \<Rightarrow> real list" where
  "pack_lights ls = foldl (\<lambda>acc l. acc @ (position l @ [0.0] @ color l)) [] ls"

text \<open>Lines 237 to 248: the uniform data.\<close>

definition uniform_data ::
  "(real \<Rightarrow> real) \<Rightarrow> real \<Rightarrow> real \<Rightarrow> real \<Rightarrow> scene \<Rightarrow> real list" where
  "uniform_data fround has_diffuse has_specular has_normal scene =
     Float32Array fround
       ([has_diffuse, has_specular, has_normal, real (length (lights scene))]
        @ get_view_matrix (camera scene)
        @ get_projection_matrix (camera scene)
        @ pack_lights (lights scene))"

text \<open>Lines 217 to 219: the model matrices of the selected objects, flattened.\<close>

definition pack_model_transforms :: "(real \<Rightarrow> real) \<Rightarrow> scene_object list \<Rightarrow> real list" where
  "pack_model_transforms fround objs =
     Float32Array fround (concat (map get_model_matrix objs))"

text \<open>Line 222: \<^verbatim>\<open>this.model_transforms?.size ?? 0\<close>.\<close>

definition current_model_transforms_size :: "Default3DPipeLine \<Rightarrow> nat" where
  "current_model_transforms_size this =
     (case model_transforms this of None \<Rightarrow> 0 | Some b \<Rightarrow> buffer_size b)"

text \<open>
  Lines 221 to 234: grow or write the transform buffer. Writing through an undefined
  buffer is the \<^verbatim>\<open>TypeError\<close> that \<^verbatim>\<open>writeBuffer\<close> throws for it.
\<close>

definition grow_or_write ::
  "Default3DPipeLine \<Rightarrow> nat \<Rightarrow> real list \<Rightarrow> SystemCore
     \<Rightarrow> (error + unit) \<times> Default3DPipeLine \<times> SystemCore" where
  "grow_or_write this count transforms sys =
     (let needed_model_transform_size = count * 16 * 4
      in if needed_model_transform_size > current_model_transforms_size this
         then
           (let sys1 = (case model_transforms this of
                          None \<Rightarrow> sys
                        | Some old \<Rightarrow> emit [DestroyBuffer (buffer_id old)] sys);
                (b, sys2) = create_gpu_buffer transforms
                              (GPUBufferUsage_STORAGE OR GPUBufferUsage_COPY_DST) sys1
            in (Inr (), this\<lparr>model_transforms := Some b\<rparr>, sys2))
         else
           (case model_transforms this of
              None \<Rightarrow> (Inl TypeError, this, sys)
            | Some b \<Rightarrow>
                (let (b', sys1) = writeBuffer b 0 transforms sys
                 in (Inr (), this\<lparr>model_transforms := Some b'\<rparr>, sys1))))"

text \<open>
  Lines 236 to 308, after the transform buffer is in place: write the uniform data,
  build and set the bind group, await the first object's mesh and draw. When the mesh
  promise is rejected \<^verbatim>\<open>render\<close> ends there, after the bind group is set: nothing is
  drawn and the pass is not ended.
\<close>

definition bind_and_draw ::
  "(real \<Rightarrow> real) \<Rightarrow> Default3DPipeLine \<Rightarrow> scene \<Rightarrow> scene_object list
     \<Rightarrow> nat \<Rightarrow> nat \<Rightarrow> nat \<Rightarrow> SystemCore
     \<Rightarrow> (error + unit) \<times> Default3DPipeLine \<times> SystemCore" where
  "bind_and_draw fround this scene relevant_scene_objects
       texture_diffuse_v texture_specular_v texture_normal_v sys =
     (let object_0 = relevant_scene_objects ! 0;
          data = uniform_data fround
                   (flag (has_texture_diffuse object_0))
                   (flag (has_texture_specular object_0))
                   (flag (has_texture_normal object_0)) scene
      in case uniform_buffer this of
           None \<Rightarrow> (Inl TypeError, this, sys)
         | Some ub \<Rightarrow>
             (let (ub', sys1) = writeBuffer ub 0 data sys;
                  this1 = this\<lparr>uniform_buffer := Some ub'\<rparr>
              in case model_transforms this1 of
                   None \<Rightarrow> (Inl TypeError, this1, emit [CreateSampler] sys1)
                 | Some mt \<Rightarrow>
                     (let sys2 = emit
                            [CreateSampler,
                             CreateBindGroup
                               [(0, BufferBinding (buffer_id ub') 0 (buffer_size ub')),
                                (1, SamplerBinding),
                                (2, TextureViewBinding texture_diffuse_v),
                                (3, TextureViewBinding texture_specular_v),
                                (4, TextureViewBinding texture_normal_v),
                                (5, BufferBinding (buffer_id mt) 0 (buffer_size mt))],
                             SetBindGroup 0,
                             AwaitGetModelData] sys1
                      in case get_model_data object_0 of
                           None \<Rightarrow> (Inl ModelDataRejected, this1, sys2)
                         | Some md \<Rightarrow>
                             (Inr (), this1,
                              emit
                                [SetVertexBuffer 0 (vertex_data_gpu md),
                                 SetIndexBuffer (indices_gpu md),
                                 DrawIndexed (index_count md)
                                   (length relevant_scene_objects) 0 0 0,
                                 EndPass] sys2))))"

text \<open>
  One asynchronous texture resolution (lines 206 to 214): the await is recorded, and a
  rejected promise ends \<^verbatim>\<open>render\<close> there.
\<close>

definition await_load_texture ::
  "scene \<Rightarrow> string option \<Rightarrow> SystemCore \<Rightarrow> (error + nat) \<times> SystemCore" where
  "await_load_texture scene ident sys =
     (case load_texture scene ident of
        None \<Rightarrow> (Inl (TextureLoadRejected ident), emit [AwaitLoadTexture ident] sys)
      | Some t \<Rightarrow> (Inr t, emit [AwaitLoadTexture ident] sys))"

text \<open>
  Modelled from the spec: the static method \<^verbatim>\<open>get_pipeline_key\<close> of the base class
  \<^verbatim>\<open>PipeLine\<close> (\<^verbatim>\<open>src/pipelines/pipeline.ts\<close>), which is not among the sources.
  Section 4.3: a static, pure function mapping a shader identifier to a pipeline key, a
  pure string transform with no device access. The specification does not give the
  transform; it is the parameter \<open>derive\<close>. The function takes the shader identifier
  only: no pipeline instance and no device.
\<close>

definition get_pipeline_key :: "(string \<Rightarrow> string) \<Rightarrow> string \<Rightarrow> string" where
  "get_pipeline_key derive path = derive path"

text \<open>
  \<^verbatim>\<open>render\<close> (lines 159 to 309). The result is the outcome of the promise, the
  pipeline instance and the device afterwards.
\<close>

definition render ::
  "(string \<Rightarrow> string) \<Rightarrow> (real \<Rightarrow> real) \<Rightarrow> Default3DPipeLine \<Rightarrow> scene \<Rightarrow> SystemCore
     \<Rightarrow> (error + unit) \<times> Default3DPipeLine \<times> SystemCore" where
  "render derive fround this scene sys =
     (let pipeline_key_v = get_pipeline_key derive (shader_path this);
          relevant_scene_objects =
            filter (\<lambda>object. pipeline_key object = pipeline_key_v) (objects scene)
      in if length relevant_scene_objects = 0
            \<or> texture_view scene = None
            \<or> depth_texture_view scene = None
         then (Inr (), this, sys)
         else
           (let sys1 = emit [BeginRenderPass (the (texture_view scene))
                               (the (depth_texture_view scene)),
                             SetPipeline (gpu_pipeline this)] sys;
                object_0 = relevant_scene_objects ! 0
            in case await_load_texture scene (texture_diffuse object_0) sys1 of
                 (Inl e, sys2) \<Rightarrow> (Inl e, this, sys2)
               | (Inr texture_diffuse_v, sys2) \<Rightarrow>
            (case await_load_texture scene (texture_specular object_0) sys2 of
                 (Inl e, sys3) \<Rightarrow> (Inl e, this, sys3)
               | (Inr texture_specular_v, sys3) \<Rightarrow>
            (case await_load_texture scene (texture_normal object_0) sys3 of
                 (Inl e, sys4) \<Rightarrow> (Inl e, this, sys4)
               | (Inr texture_normal_v, sys4) \<Rightarrow>
            (case grow_or_write this (length relevant_scene_objects)
                    (pack_model_transforms fround relevant_scene_objects) sys4 of
                 (Inl e, this1, sys5) \<Rightarrow> (Inl e, this1, sys5)
               | (Inr _, this1, sys5) \<Rightarrow>
                   bind_and_draw fround this1 scene relevant_scene_objects
                     texture_diffuse_v texture_specular_v texture_normal_v sys5)))))"

text \<open>A frame driver calling \<^verbatim>\<open>render\<close> once per scene, whatever each call returns.\<close>

fun render_frames ::
  "(string \<Rightarrow> string) \<Rightarrow> (real \<Rightarrow> real) \<Rightarrow> Default3DPipeLine \<Rightarrow> SystemCore \<Rightarrow> scene list
     \<Rightarrow> Default3DPipeLine \<times> SystemCore" where
  "render_frames k fr this sys [] = (this, sys)"
| "render_frames k fr this sys (sc # scs) =
     (case render k fr this sc sys of (_, this', sys') \<Rightarrow> render_frames k fr this' sys' scs)"

section \<open>Notions used to state the properties\<close>

text \<open>Lines 168 to 170: the objects that \<^verbatim>\<open>render\<close> selects.\<close>

definition selected ::
  "(string \<Rightarrow> string) \<Rightarrow> Default3DPipeLine \<Rightarrow> scene \<Rightarrow> scene_object list" where
  "selected k this scene =
     filter (\<lambda>object. pipeline_key object = get_pipeline_key k (shader_path this))
       (objects scene)"

text \<open>The events that a call added: those of \<open>sys'\<close> after those of \<open>sys\<close>.\<close>

definition recorded :: "SystemCore \<Rightarrow> SystemCore \<Rightarrow> event list" where
  "recorded sys sys' = drop (length (events sys)) (events sys')"

definition textures_resolve :: "scene \<Rightarrow> scene_object \<Rightarrow> bool" where
  "textures_resolve scene obj =
     (load_texture scene (texture_diffuse obj) \<noteq> None
      \<and> load_texture scene (texture_specular obj) \<noteq> None
      \<and> load_texture scene (texture_normal obj) \<noteq> None)"

text \<open>
  The call is not skipped and the three textures of the first selected object resolve:
  \<^verbatim>\<open>render\<close> gets to line 217.
\<close>

definition reaches_transforms ::
  "(string \<Rightarrow> string) \<Rightarrow> Default3DPipeLine \<Rightarrow> scene \<Rightarrow> bool" where
  "reaches_transforms k this scene =
     (selected k this scene \<noteq> [] \<and> texture_view scene \<noteq> None
      \<and> depth_texture_view scene \<noteq> None
      \<and> textures_resolve scene (selected k this scene ! 0))"

fun is_realloc_event :: "event \<Rightarrow> bool" where
  "is_realloc_event (DestroyBuffer _) = True"
| "is_realloc_event (CreateBuffer _ _ _ _) = True"
| "is_realloc_event _ = False"

fun is_texture_await :: "event \<Rightarrow> bool" where
  "is_texture_await (AwaitLoadTexture _) = True"
| "is_texture_await _ = False"

text \<open>The events up to the last texture await, that is until the textures are resolved.\<close>

definition until_textures_resolved :: "event list \<Rightarrow> event list" where
  "until_textures_resolved es = rev (dropWhile (\<lambda>e. \<not> is_texture_await e) (rev es))"

text \<open>The first five events of a call that reaches line 217.\<close>

definition begin_events :: "Default3DPipeLine \<Rightarrow> scene \<Rightarrow> scene_object \<Rightarrow> event list" where
  "begin_events this scene object_0 =
     [BeginRenderPass (the (texture_view scene)) (the (depth_texture_view scene)),
      SetPipeline (gpu_pipeline this),
      AwaitLoadTexture (texture_diffuse object_0),
      AwaitLoadTexture (texture_specular object_0),
      AwaitLoadTexture (texture_normal object_0)]"

definition destroy_events :: "Default3DPipeLine \<Rightarrow> event list" where
  "destroy_events this =
     (case model_transforms this of None \<Rightarrow> [] | Some old \<Rightarrow> [DestroyBuffer (buffer_id old)])"

text \<open>The transform buffer that line 227 creates when the next unused identity is \<open>i\<close>.\<close>

definition the_new_buffer :: "real list \<Rightarrow> nat \<Rightarrow> GPUBuffer" where
  "the_new_buffer d i =
     \<lparr>buffer_id = i, buffer_size = 4 * length d, contents = d,
      usage = GPUBufferUsage_STORAGE OR GPUBufferUsage_COPY_DST\<rparr>"

text \<open>
  What lines 221 to 234 do for \<open>n\<close> selected objects and packed transforms \<open>d\<close>, when
  the next unused buffer identity is \<open>i\<close>: the events they record and the transform
  buffer they leave.
\<close>

definition transform_events :: "Default3DPipeLine \<Rightarrow> nat \<Rightarrow> real list \<Rightarrow> nat \<Rightarrow> event list" where
  "transform_events this n d i =
     (if n * 16 * 4 > current_model_transforms_size this
      then destroy_events this
           @ [CreateBuffer i (4 * length d) d (GPUBufferUsage_STORAGE OR GPUBufferUsage_COPY_DST)]
      else (case model_transforms this of
              None \<Rightarrow> []
            | Some b \<Rightarrow> [WriteBuffer (buffer_id b) 0 d]))"

definition transform_buffer_after ::
  "Default3DPipeLine \<Rightarrow> nat \<Rightarrow> real list \<Rightarrow> nat \<Rightarrow> GPUBuffer option" where
  "transform_buffer_after this n d i =
     (if n * 16 * 4 > current_model_transforms_size this
      then Some (the_new_buffer d i)
      else map_option (\<lambda>b. overwrite b 0 d) (model_transforms this))"

text \<open>The uniform data of a frame whose first selected object is \<open>object_0\<close>.\<close>

definition frame_uniform_data :: "(real \<Rightarrow> real) \<Rightarrow> scene_object \<Rightarrow> scene \<Rightarrow> real list" where
  "frame_uniform_data fr object_0 scene =
     uniform_data fr (flag (has_texture_diffuse object_0)) (flag (has_texture_specular object_0))
       (flag (has_texture_normal object_0)) scene"

text \<open>
  Lines 252 to 297: the four events up to the await on the mesh of the first selected
  object.
\<close>

definition bind_events :: "GPUBuffer \<Rightarrow> GPUBuffer \<Rightarrow> nat \<Rightarrow> nat \<Rightarrow> nat \<Rightarrow> event list" where
  "bind_events ub mt td ts tn =
     [CreateSampler,
      CreateBindGroup
        [(0, BufferBinding (buffer_id ub) 0 (buffer_size ub)),
         (1, SamplerBinding),
         (2, TextureViewBinding td),
         (3, TextureViewBinding ts),
         (4, TextureViewBinding tn),
         (5, BufferBinding (buffer_id mt) 0 (buffer_size mt))],
      SetBindGroup 0,
      AwaitGetModelData]"

text \<open>Lines 298 to 308: the four events after the mesh \<open>md\<close> has arrived.\<close>

definition draw_events :: "model_data \<Rightarrow> nat \<Rightarrow> event list" where
  "draw_events md n =
     [SetVertexBuffer 0 (vertex_data_gpu md),
      SetIndexBuffer (indices_gpu md),
      DrawIndexed (index_count md) n 0 0 0,
      EndPass]"

text \<open>
  What the await of line 297 leads to for the object \<open>obj\<close> and \<open>n\<close> instances: the
  outcome of \<^verbatim>\<open>render\<close> and the events after the await.
\<close>

definition mesh_result :: "scene_object \<Rightarrow> error + unit" where
  "mesh_result obj = (case get_model_data obj of None \<Rightarrow> Inl ModelDataRejected | Some md \<Rightarrow> Inr ())"

definition mesh_events :: "scene_object \<Rightarrow> nat \<Rightarrow> event list" where
  "mesh_events obj n = (case get_model_data obj of None \<Rightarrow> [] | Some md \<Rightarrow> draw_events md n)"

fun is_draw :: "event \<Rightarrow> bool" where
  "is_draw (DrawIndexed _ _ _ _ _) = True"
| "is_draw _ = False"

text \<open>The shape that the types \<^verbatim>\<open>mat4\<close> and \<^verbatim>\<open>vec3\<close>, \<^verbatim>\<open>vec4\<close> give the inputs.\<close>

definition mat4 :: "real list \<Rightarrow> bool" where
  "mat4 m = (length m = 16)"

definition wf_uniform_input :: "scene \<Rightarrow> bool" where
  "wf_uniform_input scene =
     (mat4 (get_view_matrix (camera scene)) \<and> mat4 (get_projection_matrix (camera scene))
      \<and> list_all (\<lambda>l. length (position l) = 3 \<and> length (color l) = 4) (lights scene))"

definition wf_objects :: "scene \<Rightarrow> bool" where
  "wf_objects scene = list_all (\<lambda>obj. mat4 (get_model_matrix obj)) (objects scene)"

section \<open>Example scenes\<close>

text \<open>A key derivation for the examples: every shader path gets the pipeline's label.\<close>

definition label_key :: "string \<Rightarrow> string" where
  "label_key path = get_pipeline_label"

definition ex_load_texture :: "string option \<Rightarrow> nat option" where
  "ex_load_texture ident = (case ident of None \<Rightarrow> Some 0 | Some s \<Rightarrow> Some (length s))"

definition ex_object :: "string \<Rightarrow> nat \<Rightarrow> scene_object" where
  "ex_object key m =
     \<lparr>pipeline_key = key,
      has_texture_diffuse = True, has_texture_specular = even m, has_texture_normal = False,
      texture_diffuse = Some (if even m then ''brick.png'' else ''wood.png''),
      texture_specular = (if even m then Some ''brick_s.png'' else None),
      texture_normal = None,
      get_model_matrix = [1, 0, 0, 0, 0, 1, 0, 0, 0, 0, 1, 0, real m, 0, 0, 1],
      get_model_data =
        Some \<lparr>vertex_data_gpu = 100 + m, indices_gpu = 200 + m, index_count = 36\<rparr>\<rparr>"

definition ex_light :: "real \<Rightarrow> light" where
  "ex_light x = \<lparr>position = [x, 2, 3], color = [1, 1, 1, 1 / 2]\<rparr>"

definition identity_matrix :: "real list" where
  "identity_matrix = [1, 0, 0, 0, 0, 1, 0, 0, 0, 0, 1, 0, 0, 0, 0, 1]"

definition ex_scene_of :: "scene_object list \<Rightarrow> light list \<Rightarrow> scene" where
  "ex_scene_of objs ls =
     \<lparr>objects = objs, lights = ls,
      camera = \<lparr>get_view_matrix = identity_matrix, get_projection_matrix = identity_matrix\<rparr>,
      texture_view = Some 1, depth_texture_view = Some 2,
      load_texture = ex_load_texture\<rparr>"

text \<open>
  The end-to-end scenario of the specification: three objects, two of them routed to
  \<open>default_3d\<close>, and two lights.
\<close>

definition ex_scene :: scene where
  "ex_scene = ex_scene_of
     [ex_object ''default_3d'' 3, ex_object ''other'' 2, ex_object ''default_3d'' 4]
     [ex_light 5, ex_light 7]"

text \<open>One object and eleven lights, one more than the uniform buffer has room for.\<close>

definition ex_scene_11_lights :: scene where
  "ex_scene_11_lights = ex_scene_of [ex_object ''default_3d'' 3] (replicate 11 (ex_light 1))"

text \<open>The same scene when the mesh of its first object is rejected.\<close>

definition ex_scene_no_mesh :: scene where
  "ex_scene_no_mesh = ex_scene_of
     [(ex_object ''default_3d'' 3)\<lparr>get_model_data := None\<rparr>, ex_object ''other'' 2,
      ex_object ''default_3d'' 4]
     [ex_light 5, ex_light 7]"

text \<open>One object and no light.\<close>

definition ex_scene_one :: scene where
  "ex_scene_one = ex_scene_of [ex_object ''default_3d'' 5] []"

definition ex_sys :: SystemCore where
  "ex_sys = \<lparr>next_buffer_id = 10, events = []\<rparr>"

definition ex_pipeline :: Default3DPipeLine where
  "ex_pipeline = fst (construct_pipeline ''shader.wgsl'' 7 ex_sys)"

definition ex_sys1 :: SystemCore where
  "ex_sys1 = snd (construct_pipeline ''shader.wgsl'' 7 ex_sys)"

text \<open>The pipeline and the device after the frame of the end-to-end scenario.\<close>

definition ex_pipeline_after :: Default3DPipeLine where
  "ex_pipeline_after = fst (snd (render label_key id ex_pipeline ex_scene ex_sys1))"

definition ex_sys_after :: SystemCore where
  "ex_sys_after = snd (snd (render label_key id ex_pipeline ex_scene ex_sys1))"

text \<open>Line 163: the key that \<^verbatim>\<open>render\<close> derives for a pipeline instance.\<close>

definition pipeline_key_of :: "(string \<Rightarrow> string) \<Rightarrow> Default3DPipeLine \<Rightarrow> string" where
  "pipeline_key_of k this = get_pipeline_key k (shader_path this)"

section \<open>Stages of \<open>render\<close>\<close>

lemma recorded_append: "events sys' = events sys @ es \<Longrightarrow> recorded sys sys' = es"
  by (simp add: recorded_def)

lemma foldl_pack:
  "foldl (\<lambda>acc l. acc @ (position l @ [0.0] @ color l)) acc ls
     = acc @ concat (map (\<lambda>l. position l @ [0.0] @ color l) ls)"
  by (induction ls arbitrary: acc) simp_all

lemma pack_lights_concat:
  "pack_lights ls = concat (map (\<lambda>l. position l @ [0] @ color l) ls)"
  using foldl_pack [of "[]" ls] by (simp add: pack_lights_def)

lemma overwrite_id: "buffer_id (overwrite b off d) = buffer_id b"
  by (simp add: overwrite_def)

lemma overwrite_size: "buffer_size (overwrite b off d) = buffer_size b"
  by (simp add: overwrite_def)

lemma overwrite_fits:
  "4 * length d \<le> buffer_size b \<Longrightarrow>
     contents (overwrite b 0 d) = d @ drop (length d) (contents b)"
  by (simp add: overwrite_def)

lemma grow_or_write_grow:
  assumes "n * 16 * 4 > current_model_transforms_size this"
  shows "grow_or_write this n d sys =
    (Inr (), this\<lparr>model_transforms := Some (the_new_buffer d (next_buffer_id sys))\<rparr>,
     sys\<lparr>next_buffer_id := Suc (next_buffer_id sys),
          events := events sys @ destroy_events this
            @ [CreateBuffer (next_buffer_id sys) (4 * length d) d
                 (GPUBufferUsage_STORAGE OR GPUBufferUsage_COPY_DST)]\<rparr>)"
  using assms
  by (simp add: grow_or_write_def create_gpu_buffer_def the_new_buffer_def Let_def emit_def
      destroy_events_def split: option.splits)

lemma grow_or_write_write:
  assumes "\<not> n * 16 * 4 > current_model_transforms_size this" "model_transforms this = Some b"
  shows "grow_or_write this n d sys =
    (Inr (), this\<lparr>model_transforms := Some (overwrite b 0 d)\<rparr>,
     sys\<lparr>events := events sys @ [WriteBuffer (buffer_id b) 0 d]\<rparr>)"
  using assms
  by (simp add: grow_or_write_def writeBuffer_def Let_def emit_def)

lemma absent_buffer_grows:
  assumes "0 < n" "\<not> n * 16 * 4 > current_model_transforms_size this"
  obtains b where "model_transforms this = Some b"
  using assms by (cases "model_transforms this") (auto simp: current_model_transforms_size_def)

lemma render_skip:
  assumes "selected k this scene = [] \<or> texture_view scene = None \<or> depth_texture_view scene = None"
  shows "render k fr this scene sys = (Inr (), this, sys)"
  using assms by (auto simp add: render_def selected_def Let_def)

lemma render_reach:
  assumes "selected k this scene \<noteq> []"
    and "texture_view scene = Some tv" and "depth_texture_view scene = Some dv"
    and "load_texture scene (texture_diffuse (selected k this scene ! 0)) = Some td"
    and "load_texture scene (texture_specular (selected k this scene ! 0)) = Some ts"
    and "load_texture scene (texture_normal (selected k this scene ! 0)) = Some tn"
  shows "render k fr this scene sys =
    (case grow_or_write this (length (selected k this scene))
            (pack_model_transforms fr (selected k this scene))
            (sys\<lparr>events := events sys @ begin_events this scene (selected k this scene ! 0)\<rparr>) of
       (Inl e, this1, sys5) \<Rightarrow> (Inl e, this1, sys5)
     | (Inr _, this1, sys5) \<Rightarrow>
         bind_and_draw fr this1 scene (selected k this scene) td ts tn sys5)"
  using assms unfolding selected_def
  by (simp add: render_def Let_def await_load_texture_def emit_def begin_events_def)

lemma reaches_transformsE:
  assumes "reaches_transforms k this scene"
  obtains tv dv td ts tn where
    "selected k this scene \<noteq> []"
    "texture_view scene = Some tv" "depth_texture_view scene = Some dv"
    "load_texture scene (texture_diffuse (selected k this scene ! 0)) = Some td"
    "load_texture scene (texture_specular (selected k this scene ! 0)) = Some ts"
    "load_texture scene (texture_normal (selected k this scene ! 0)) = Some tn"
  using assms by (auto simp: reaches_transforms_def textures_resolve_def)

text \<open>A call that reaches line 217 and has to grow the transform buffer.\<close>

lemma render_reaches_grow:
  assumes reach: "reaches_transforms k this scene"
    and grow: "length (selected k this scene) * 16 * 4 > current_model_transforms_size this"
  shows "render k fr this scene sys =
    bind_and_draw fr
      (this\<lparr>model_transforms :=
          Some (the_new_buffer (pack_model_transforms fr (selected k this scene))
                  (next_buffer_id sys))\<rparr>)
      scene (selected k this scene)
      (the (load_texture scene (texture_diffuse (selected k this scene ! 0))))
      (the (load_texture scene (texture_specular (selected k this scene ! 0))))
      (the (load_texture scene (texture_normal (selected k this scene ! 0))))
      (sys\<lparr>next_buffer_id := Suc (next_buffer_id sys),
           events := events sys
             @ begin_events this scene (selected k this scene ! 0)
             @ destroy_events this
             @ [CreateBuffer (next_buffer_id sys)
                  (4 * length (pack_model_transforms fr (selected k this scene)))
                  (pack_model_transforms fr (selected k this scene))
                  (GPUBufferUsage_STORAGE OR GPUBufferUsage_COPY_DST)]\<rparr>)"
proof -
  from reach obtain tv dv td ts tn where
    f: "selected k this scene \<noteq> []"
    "texture_view scene = Some tv" "depth_texture_view scene = Some dv"
    "load_texture scene (texture_diffuse (selected k this scene ! 0)) = Some td"
    "load_texture scene (texture_specular (selected k this scene ! 0)) = Some ts"
    "load_texture scene (texture_normal (selected k this scene ! 0)) = Some tn"
    by (rule reaches_transformsE)
  show ?thesis
    by (simp add: render_reach [OF f] grow_or_write_grow [OF grow] f)
qed

text \<open>A call that reaches line 217 and finds the transform buffer large enough.\<close>

lemma render_reaches_write:
  assumes reach: "reaches_transforms k this scene"
    and fits: "length (selected k this scene) * 16 * 4 \<le> current_model_transforms_size this"
  shows "\<exists>b. model_transforms this = Some b \<and> render k fr this scene sys =
    bind_and_draw fr
      (this\<lparr>model_transforms :=
          Some (overwrite b 0 (pack_model_transforms fr (selected k this scene)))\<rparr>)
      scene (selected k this scene)
      (the (load_texture scene (texture_diffuse (selected k this scene ! 0))))
      (the (load_texture scene (texture_specular (selected k this scene ! 0))))
      (the (load_texture scene (texture_normal (selected k this scene ! 0))))
      (sys\<lparr>events := events sys
             @ begin_events this scene (selected k this scene ! 0)
             @ [WriteBuffer (buffer_id b) 0 (pack_model_transforms fr (selected k this scene))]\<rparr>)"
proof -
  from reach obtain tv dv td ts tn where
    f: "selected k this scene \<noteq> []"
    "texture_view scene = Some tv" "depth_texture_view scene = Some dv"
    "load_texture scene (texture_diffuse (selected k this scene ! 0)) = Some td"
    "load_texture scene (texture_specular (selected k this scene ! 0)) = Some ts"
    "load_texture scene (texture_normal (selected k this scene ! 0)) = Some tn"
    by (rule reaches_transformsE)
  from fits have nogrow:
    "\<not> length (selected k this scene) * 16 * 4 > current_model_transforms_size this"
    by simp
  from f(1) have "0 < length (selected k this scene)" by simp
  then obtain b where b: "model_transforms this = Some b"
    using nogrow by (rule absent_buffer_grows)
  have "render k fr this scene sys =
    bind_and_draw fr
      (this\<lparr>model_transforms :=
          Some (overwrite b 0 (pack_model_transforms fr (selected k this scene)))\<rparr>)
      scene (selected k this scene)
      (the (load_texture scene (texture_diffuse (selected k this scene ! 0))))
      (the (load_texture scene (texture_specular (selected k this scene ! 0))))
      (the (load_texture scene (texture_normal (selected k this scene ! 0))))
      (sys\<lparr>events := events sys
             @ begin_events this scene (selected k this scene ! 0)
             @ [WriteBuffer (buffer_id b) 0 (pack_model_transforms fr (selected k this scene))]\<rparr>)"
    by (simp add: render_reach [OF f] grow_or_write_write [OF nogrow b] f)
  with b show ?thesis by blast
qed

text \<open>A call that is not skipped and does not reach line 217: a texture was rejected.\<close>

lemma render_rejected:
  assumes "selected k this scene \<noteq> []"
    and "texture_view scene = Some tv" and "depth_texture_view scene = Some dv"
    and "\<not> textures_resolve scene (selected k this scene ! 0)"
  shows "\<exists>e es. render k fr this scene sys =
      (Inl (TextureLoadRejected e), this,
       sys\<lparr>events := events sys @ [BeginRenderPass tv dv, SetPipeline (gpu_pipeline this)] @ es\<rparr>)
     \<and> es \<noteq> [] \<and> list_all is_texture_await es
     \<and> hd es = AwaitLoadTexture (texture_diffuse (selected k this scene ! 0))"
proof -
  let ?o = "selected k this scene ! 0"
  have sel: "filter (\<lambda>object. pipeline_key object = get_pipeline_key k (shader_path this))
      (objects scene) \<noteq> []"
    using assms(1) by (simp add: selected_def)
  have o: "filter (\<lambda>object. pipeline_key object = get_pipeline_key k (shader_path this))
      (objects scene) ! 0 = ?o"
    by (simp add: selected_def)
  consider (d) "load_texture scene (texture_diffuse ?o) = None"
    | (s) td where "load_texture scene (texture_diffuse ?o) = Some td"
        "load_texture scene (texture_specular ?o) = None"
    | (n) td ts where "load_texture scene (texture_diffuse ?o) = Some td"
        "load_texture scene (texture_specular ?o) = Some ts"
        "load_texture scene (texture_normal ?o) = None"
    using assms(4) by (auto simp: textures_resolve_def)
  then show ?thesis
  proof cases
    case d
    have "render k fr this scene sys = (Inl (TextureLoadRejected (texture_diffuse ?o)), this,
       sys\<lparr>events := events sys @ [BeginRenderPass tv dv, SetPipeline (gpu_pipeline this)]
          @ [AwaitLoadTexture (texture_diffuse ?o)]\<rparr>)"
      using sel assms(2,3) d
      by (simp add: render_def Let_def o await_load_texture_def emit_def)
    then show ?thesis by (intro exI conjI) (assumption, simp_all)
  next
    case s
    have "render k fr this scene sys = (Inl (TextureLoadRejected (texture_specular ?o)), this,
       sys\<lparr>events := events sys @ [BeginRenderPass tv dv, SetPipeline (gpu_pipeline this)]
          @ [AwaitLoadTexture (texture_diffuse ?o), AwaitLoadTexture (texture_specular ?o)]\<rparr>)"
      using sel assms(2,3) s
      by (simp add: render_def Let_def o await_load_texture_def emit_def)
    then show ?thesis by (intro exI conjI) (assumption, simp_all)
  next
    case n
    have "render k fr this scene sys = (Inl (TextureLoadRejected (texture_normal ?o)), this,
       sys\<lparr>events := events sys @ [BeginRenderPass tv dv, SetPipeline (gpu_pipeline this)]
          @ [AwaitLoadTexture (texture_diffuse ?o), AwaitLoadTexture (texture_specular ?o),
             AwaitLoadTexture (texture_normal ?o)]\<rparr>)"
      using sel assms(2,3) n
      by (simp add: render_def Let_def o await_load_texture_def emit_def)
    then show ?thesis by (intro exI conjI) (assumption, simp_all)
  qed
qed

subsection \<open>Binding and drawing\<close>

lemma bind_and_draw_transforms:
  "model_transforms (fst (snd (bind_and_draw fr this scene objs td ts tn sys))) = model_transforms this"
  by (simp add: bind_and_draw_def Let_def writeBuffer_def split: option.splits)

lemma bind_and_draw_shader_path:
  "shader_path (fst (snd (bind_and_draw fr this scene objs td ts tn sys))) = shader_path this"
  by (simp add: bind_and_draw_def Let_def writeBuffer_def split: option.splits)

lemma bind_and_draw_events:
  "\<exists>es. events (snd (snd (bind_and_draw fr this scene objs td ts tn sys))) = events sys @ es
        \<and> filter is_realloc_event es = [] \<and> filter is_texture_await es = []"
  by (simp add: bind_and_draw_def Let_def writeBuffer_def emit_def split: option.splits)

lemma bind_and_draw_eq:
  assumes "uniform_buffer this = Some ub" "model_transforms this = Some mt"
  shows "bind_and_draw fr this scene objs td ts tn sys =
    (mesh_result (objs ! 0),
     this\<lparr>uniform_buffer := Some (overwrite ub 0 (frame_uniform_data fr (objs ! 0) scene))\<rparr>,
     sys\<lparr>events := events sys
          @ [WriteBuffer (buffer_id ub) 0 (frame_uniform_data fr (objs ! 0) scene)]
          @ bind_events ub mt td ts tn
          @ mesh_events (objs ! 0) (length objs)\<rparr>)"
  using assms
  by (simp add: bind_and_draw_def Let_def frame_uniform_data_def bind_events_def draw_events_def
      mesh_result_def mesh_events_def writeBuffer_def emit_def overwrite_id overwrite_size
      split: option.splits)

subsection \<open>The whole call\<close>

lemma texture_await_not_realloc: "list_all is_texture_await es \<Longrightarrow> filter is_realloc_event es = []"
proof (induction es)
  case Nil
  then show ?case by simp
next
  case (Cons e es)
  then show ?case by (cases e) simp_all
qed

lemma filter_begin_events:
  "filter is_realloc_event (begin_events this scene obj) = []"
  by (simp add: begin_events_def)

lemma filter_transform_events:
  "filter is_realloc_event (transform_events this n d i) =
     (if n * 16 * 4 > current_model_transforms_size this
      then destroy_events this
           @ [CreateBuffer i (4 * length d) d (GPUBufferUsage_STORAGE OR GPUBufferUsage_COPY_DST)]
      else [])"
  by (simp add: transform_events_def destroy_events_def split: option.splits)

lemma transform_events_no_await:
  "filter is_texture_await (transform_events this n d i) = []"
  by (simp add: transform_events_def destroy_events_def split: option.splits)

text \<open>
  A call that reaches line 217 goes on to bind and draw, with the transform buffer and
  the events that lines 221 to 234 leave.
\<close>

lemma render_reaches:
  assumes reach: "reaches_transforms k this scene"
  shows "\<exists>nb. render k fr this scene sys =
    bind_and_draw fr
      (this\<lparr>model_transforms :=
          transform_buffer_after this (length (selected k this scene))
            (pack_model_transforms fr (selected k this scene)) (next_buffer_id sys)\<rparr>)
      scene (selected k this scene)
      (the (load_texture scene (texture_diffuse (selected k this scene ! 0))))
      (the (load_texture scene (texture_specular (selected k this scene ! 0))))
      (the (load_texture scene (texture_normal (selected k this scene ! 0))))
      (sys\<lparr>next_buffer_id := nb,
           events := events sys
             @ begin_events this scene (selected k this scene ! 0)
             @ transform_events this (length (selected k this scene))
                 (pack_model_transforms fr (selected k this scene)) (next_buffer_id sys)\<rparr>)"
proof (cases "length (selected k this scene) * 16 * 4 > current_model_transforms_size this")
  case True
  show ?thesis
    using True
    by (intro exI [of _ "Suc (next_buffer_id sys)"])
      (simp add: render_reaches_grow [OF reach True] transform_events_def
        transform_buffer_after_def)
next
  case False
  then have fits: "length (selected k this scene) * 16 * 4 \<le> current_model_transforms_size this"
    by simp
  from render_reaches_write [OF reach fits, of fr sys] obtain b where
    b: "model_transforms this = Some b" and
    r: "render k fr this scene sys =
    bind_and_draw fr
      (this\<lparr>model_transforms :=
          Some (overwrite b 0 (pack_model_transforms fr (selected k this scene)))\<rparr>)
      scene (selected k this scene)
      (the (load_texture scene (texture_diffuse (selected k this scene ! 0))))
      (the (load_texture scene (texture_specular (selected k this scene ! 0))))
      (the (load_texture scene (texture_normal (selected k this scene ! 0))))
      (sys\<lparr>events := events sys
             @ begin_events this scene (selected k this scene ! 0)
             @ [WriteBuffer (buffer_id b) 0 (pack_model_transforms fr (selected k this scene))]\<rparr>)"
    by blast
  have "sys\<lparr>events := es\<rparr> = sys\<lparr>next_buffer_id := next_buffer_id sys, events := es\<rparr>" for es
    by simp
  then show ?thesis
    using False
    by (intro exI [of _ "next_buffer_id sys"])
      (simp add: r transform_events_def transform_buffer_after_def b)
qed

lemma render_transform_buffer:
  "model_transforms (fst (snd (render k fr this scene sys))) =
     (if reaches_transforms k this scene
      then transform_buffer_after this (length (selected k this scene))
             (pack_model_transforms fr (selected k this scene)) (next_buffer_id sys)
      else model_transforms this)"
proof (cases "reaches_transforms k this scene")
  case True
  from render_reaches [OF True, of fr sys] obtain nb where
    "render k fr this scene sys =
    bind_and_draw fr
      (this\<lparr>model_transforms :=
          transform_buffer_after this (length (selected k this scene))
            (pack_model_transforms fr (selected k this scene)) (next_buffer_id sys)\<rparr>)
      scene (selected k this scene)
      (the (load_texture scene (texture_diffuse (selected k this scene ! 0))))
      (the (load_texture scene (texture_specular (selected k this scene ! 0))))
      (the (load_texture scene (texture_normal (selected k this scene ! 0))))
      (sys\<lparr>next_buffer_id := nb,
           events := events sys
             @ begin_events this scene (selected k this scene ! 0)
             @ transform_events this (length (selected k this scene))
                 (pack_model_transforms fr (selected k this scene)) (next_buffer_id sys)\<rparr>)"
    by blast
  then show ?thesis
    by (simp add: True bind_and_draw_transforms)
next
  case False
  show ?thesis
  proof (cases "selected k this scene = [] \<or> texture_view scene = None \<or> depth_texture_view scene = None")
    case True
    then show ?thesis using False by (simp add: render_skip)
  next
    case nskip: False
    then obtain tv dv where v: "selected k this scene \<noteq> []" "texture_view scene = Some tv"
      "depth_texture_view scene = Some dv" by auto
    with False have "\<not> textures_resolve scene (selected k this scene ! 0)"
      by (simp add: reaches_transforms_def)
    from render_rejected [OF v this, of fr sys] show ?thesis using False by auto
  qed
qed

lemma render_events:
  "\<exists>es. events (snd (snd (render k fr this scene sys))) = events sys @ es
     \<and> filter is_realloc_event es =
         (if reaches_transforms k this scene
             \<and> length (selected k this scene) * 16 * 4 > current_model_transforms_size this
          then destroy_events this @
               [CreateBuffer (next_buffer_id sys)
                  (4 * length (pack_model_transforms fr (selected k this scene)))
                  (pack_model_transforms fr (selected k this scene))
                  (GPUBufferUsage_STORAGE OR GPUBufferUsage_COPY_DST)]
          else [])
     \<and> (reaches_transforms k this scene \<longrightarrow>
          (\<exists>rest. es = begin_events this scene (selected k this scene ! 0)
             @ transform_events this (length (selected k this scene))
                 (pack_model_transforms fr (selected k this scene)) (next_buffer_id sys)
             @ rest \<and> filter is_texture_await rest = []))"
proof (cases "reaches_transforms k this scene")
  case True
  let ?bd = "\<lambda>nb. bind_and_draw fr
      (this\<lparr>model_transforms :=
          transform_buffer_after this (length (selected k this scene))
            (pack_model_transforms fr (selected k this scene)) (next_buffer_id sys)\<rparr>)
      scene (selected k this scene)
      (the (load_texture scene (texture_diffuse (selected k this scene ! 0))))
      (the (load_texture scene (texture_specular (selected k this scene ! 0))))
      (the (load_texture scene (texture_normal (selected k this scene ! 0))))
      (sys\<lparr>next_buffer_id := nb,
           events := events sys
             @ begin_events this scene (selected k this scene ! 0)
             @ transform_events this (length (selected k this scene))
                 (pack_model_transforms fr (selected k this scene)) (next_buffer_id sys)\<rparr>)"
  from render_reaches [OF True, of fr sys] obtain nb where r: "render k fr this scene sys = ?bd nb"
    by blast
  let ?pre = "events sys
             @ begin_events this scene (selected k this scene ! 0)
             @ transform_events this (length (selected k this scene))
                 (pack_model_transforms fr (selected k this scene)) (next_buffer_id sys)"
  from bind_and_draw_events [of fr _ scene _ _ _ _ "sys\<lparr>next_buffer_id := nb, events := ?pre\<rparr>"]
  obtain rest where
    rest0: "events (snd (snd (?bd nb))) = events (sys\<lparr>next_buffer_id := nb, events := ?pre\<rparr>) @ rest"
      and rest1: "filter is_realloc_event rest = []" "filter is_texture_await rest = []"
    by blast
  from rest0 have rest: "events (snd (snd (?bd nb))) = ?pre @ rest"
    by simp
  show ?thesis
    by (rule exI [of _ "begin_events this scene (selected k this scene ! 0)
             @ transform_events this (length (selected k this scene))
                 (pack_model_transforms fr (selected k this scene)) (next_buffer_id sys) @ rest"])
      (simp add: r rest rest1 True filter_begin_events filter_transform_events)
next
  case False
  show ?thesis
  proof (cases "selected k this scene = [] \<or> texture_view scene = None \<or> depth_texture_view scene = None")
    case True
    then show ?thesis using False by (simp add: render_skip)
  next
    case nskip: False
    then obtain tv dv where v: "selected k this scene \<noteq> []" "texture_view scene = Some tv"
      "depth_texture_view scene = Some dv" by auto
    with False have "\<not> textures_resolve scene (selected k this scene ! 0)"
      by (simp add: reaches_transforms_def)
    from render_rejected [OF v this, of fr sys] obtain e es where
      "render k fr this scene sys =
      (Inl (TextureLoadRejected e), this,
       sys\<lparr>events := events sys @ [BeginRenderPass tv dv, SetPipeline (gpu_pipeline this)] @ es\<rparr>)"
      "list_all is_texture_await es" by blast
    then show ?thesis using False
      by (intro exI [of _ "[BeginRenderPass tv dv, SetPipeline (gpu_pipeline this)] @ es"])
        (simp add: texture_await_not_realloc)
  qed
qed

subsection \<open>Lists made of chunks of one length\<close>

lemma chunk_of_concat:
  assumes "\<forall>x\<in>set xs. length (f x) = n" "i < length xs"
  shows "take n (drop (n * i) (concat (map f xs))) = f (xs ! i)"
  using assms
proof (induction xs arbitrary: i)
  case Nil
  then show ?case by simp
next
  case (Cons x xs)
  show ?case
  proof (cases i)
    case 0
    with Cons.prems show ?thesis by simp
  next
    case (Suc j)
    with Cons.prems have "take n (drop (n * j) (concat (map f xs))) = f (xs ! j)"
      by (intro Cons.IH) auto
    with Suc Cons.prems show ?thesis by simp
  qed
qed

lemma length_concat_chunks:
  "\<forall>x\<in>set xs. length (f x) = n \<Longrightarrow> length (concat (map f xs)) = n * length xs"
  by (induction xs) simp_all

section \<open>Uniform packing\<close>

text \<open>
  Claim C1, as amended. The uniform data that \<^verbatim>\<open>render\<close> packs (lines 237 to 248)
  is a flat sequence of \<open>36 + 8 * n\<close> floats, \<open>n\<close> the number of lights of the scene:
  the three texture-presence flags, the light count, the view matrix (16 floats), the
  projection matrix (16 floats), then one record of 8 floats for each light of the
  scene: its position (3 floats) and a literal zero in the fourth channel, then its
  colour (4 floats). It has the 116 floats of the uniform buffer exactly when the scene
  has 10 lights. The sequence is a function of the inputs, so equal inputs give equal
  sequences. The camera matrices are taken to have 16 floats, the positions 3 and the
  colours 4, as their types say.
\<close>

theorem uniform_data_layout:
  assumes "wf_uniform_input scene"
  shows "length (uniform_data fr d s n scene) = 36 + 8 * length (lights scene)
     \<and> take 4 (uniform_data fr d s n scene) = [fr d, fr s, fr n, fr (real (length (lights scene)))]
     \<and> take 16 (drop 4 (uniform_data fr d s n scene)) = map fr (get_view_matrix (camera scene))
     \<and> take 16 (drop 20 (uniform_data fr d s n scene)) = map fr (get_projection_matrix (camera scene))
     \<and> (\<forall>i < length (lights scene).
          take 8 (drop (36 + 8 * i) (uniform_data fr d s n scene))
            = map fr (position (lights scene ! i) @ [0] @ color (lights scene ! i))
          \<and> length (position (lights scene ! i) @ [0]) = 4
          \<and> length (color (lights scene ! i)) = 4)
     \<and> (length (lights scene) = 10 \<longrightarrow>
          length (uniform_data fr d s n scene) = DEFAULT_3D_UNIFORM_DATA_SIZE_FLOAT)"
proof -
  let ?rec = "\<lambda>l. position l @ [0] @ color l"
  let ?ls = "lights scene"
  from assms have v: "length (get_view_matrix (camera scene)) = 16"
    and p: "length (get_projection_matrix (camera scene)) = 16"
    and l: "\<forall>l\<in>set ?ls. length (position l) = 3 \<and> length (color l) = 4"
    by (simp_all add: wf_uniform_input_def mat4_def list_all_iff)
  from l have l8: "\<forall>l\<in>set ?ls. length (?rec l) = 8" by simp
  have u: "uniform_data fr d s n scene =
      [fr d, fr s, fr n, fr (real (length ?ls))] @ map fr (get_view_matrix (camera scene))
        @ map fr (get_projection_matrix (camera scene)) @ map fr (concat (map ?rec ?ls))"
    by (simp add: uniform_data_def Float32Array_def pack_lights_concat)
  have len: "length (uniform_data fr d s n scene) = 36 + 8 * length ?ls"
    using length_concat_chunks [OF l8] by (simp add: u v p)
  define hdr where "hdr = [fr d, fr s, fr n, fr (real (length ?ls))]
      @ map fr (get_view_matrix (camera scene)) @ map fr (get_projection_matrix (camera scene))"
  have hdr: "length hdr = 36" and split: "uniform_data fr d s n scene = hdr @ map fr (concat (map ?rec ?ls))"
    by (simp_all add: hdr_def u v p)
  have lights: "take 8 (drop (36 + 8 * i) (uniform_data fr d s n scene)) = map fr (?rec (?ls ! i))"
    if "i < length ?ls" for i
  proof -
    have "drop (36 + 8 * i) (uniform_data fr d s n scene) = drop (8 * i) (map fr (concat (map ?rec ?ls)))"
      by (simp add: split hdr)
    then show ?thesis
      using chunk_of_concat [OF l8 that] by (simp add: take_map drop_map)
  qed
  show ?thesis
    using len lights l
    by (simp add: u v p DEFAULT_3D_UNIFORM_DATA_SIZE_FLOAT_def)
qed


theorem uniform_data_layout_witness:
  "wf_uniform_input ex_scene \<and> length (uniform_data id 1 0 0 ex_scene) = 52
    \<and> take 8 (drop 44 (uniform_data id 1 0 0 ex_scene)) = [7, 2, 3, 0, 1, 1, 1, 1 / 2]"
proof -
  have wf: "wf_uniform_input ex_scene"
    by (simp add: wf_uniform_input_def mat4_def ex_scene_def ex_scene_of_def identity_matrix_def
        ex_light_def)
  have ls: "lights ex_scene = [ex_light 5, ex_light 7]"
    by (simp add: ex_scene_def ex_scene_of_def)
  note t = uniform_data_layout [OF wf, of id 1 0 0]
  from t have "length (uniform_data id 1 0 0 ex_scene) = 36 + 8 * length (lights ex_scene)"
    by (rule conjunct1)
  moreover have "take 8 (drop (36 + 8 * 1) (uniform_data id 1 0 0 ex_scene))
      = map id (position (lights ex_scene ! 1) @ [0] @ color (lights ex_scene ! 1))"
    using t [THEN conjunct2, THEN conjunct2, THEN conjunct2, THEN conjunct2, THEN conjunct1,
        rule_format, of 1]
    by (simp add: ls)
  ultimately show ?thesis
    using wf by (simp add: ls ex_light_def)
qed


text \<open>
  The claim as it was stated asks for exactly 116 floats for every scene. The scene of
  the end-to-end scenario has two lights, and its uniform data has 52 floats.
\<close>

theorem uniform_data_length_counterexample:
  "length (uniform_data id 1 0 0 ex_scene) = 52 \<and> DEFAULT_3D_UNIFORM_DATA_SIZE_FLOAT = 116"
  by (simp add: uniform_data_def Float32Array_def pack_lights_def ex_scene_def ex_scene_of_def
      identity_matrix_def ex_light_def DEFAULT_3D_UNIFORM_DATA_SIZE_FLOAT_def)

section \<open>Skipped frames\<close>

text \<open>
  Claim C6. When no object of the scene has this pipeline's key, or the colour target
  view is missing, or the depth target view is missing, \<^verbatim>\<open>render\<close> returns at once:
  the promise resolves, no event is recorded (no render pass, no buffer write, no draw)
  and the pipeline instance with its two buffers is as before.
\<close>

theorem render_skip_is_noop:
  assumes "selected k this scene = [] \<or> texture_view scene = None \<or> depth_texture_view scene = None"
  shows "render k fr this scene sys = (Inr (), this, sys)
     \<and> recorded sys (snd (snd (render k fr this scene sys))) = []
     \<and> model_transforms (fst (snd (render k fr this scene sys))) = model_transforms this
     \<and> uniform_buffer (fst (snd (render k fr this scene sys))) = uniform_buffer this"
  using render_skip [OF assms] by (simp add: recorded_def)

theorem render_skip_is_noop_witness:
  "render label_key id ex_pipeline (ex_scene_of [ex_object ''other'' 2] []) ex_sys1
     = (Inr (), ex_pipeline, ex_sys1)
   \<and> render label_key id ex_pipeline (ex_scene\<lparr>depth_texture_view := None\<rparr>) ex_sys1
     = (Inr (), ex_pipeline, ex_sys1)
   \<and> render label_key id ex_pipeline (ex_scene\<lparr>texture_view := None\<rparr>) ex_sys1
     = (Inr (), ex_pipeline, ex_sys1)"
  using render_skip_is_noop [of label_key ex_pipeline "ex_scene_of [ex_object ''other'' 2] []" id ex_sys1]
    render_skip_is_noop [of label_key ex_pipeline "ex_scene\<lparr>depth_texture_view := None\<rparr>" id ex_sys1]
    render_skip_is_noop [of label_key ex_pipeline "ex_scene\<lparr>texture_view := None\<rparr>" id ex_sys1]
  by (simp add: selected_def get_pipeline_key_def ex_scene_def ex_scene_of_def ex_object_def
      label_key_def get_pipeline_label_def)


subsection \<open>Calls that write the uniform data\<close>

lemma transform_buffer_after_Some:
  assumes "0 < n"
  obtains mt where "transform_buffer_after this n d i = Some mt"
proof (cases "n * 16 * 4 > current_model_transforms_size this")
  case True
  then show ?thesis using that by (simp add: transform_buffer_after_def)
next
  case False
  with assms obtain b where "model_transforms this = Some b" by (rule absent_buffer_grows)
  with False show ?thesis using that by (simp add: transform_buffer_after_def)
qed

text \<open>
  A call that reaches line 217 with a uniform buffer in place goes as far as the await
  on the mesh, and on to the draw when the mesh arrives.
\<close>

lemma render_complete:
  assumes reach: "reaches_transforms k this scene"
    and ub: "uniform_buffer this = Some ub"
  shows "\<exists>mt nb.
    transform_buffer_after this (length (selected k this scene))
       (pack_model_transforms fr (selected k this scene)) (next_buffer_id sys) = Some mt
    \<and> render k fr this scene sys =
       (mesh_result (selected k this scene ! 0),
        this\<lparr>model_transforms := Some mt,
             uniform_buffer :=
               Some (overwrite ub 0 (frame_uniform_data fr (selected k this scene ! 0) scene))\<rparr>,
        sys\<lparr>next_buffer_id := nb,
             events := events sys
               @ begin_events this scene (selected k this scene ! 0)
               @ transform_events this (length (selected k this scene))
                   (pack_model_transforms fr (selected k this scene)) (next_buffer_id sys)
               @ [WriteBuffer (buffer_id ub) 0
                    (frame_uniform_data fr (selected k this scene ! 0) scene)]
               @ bind_events ub mt
                   (the (load_texture scene (texture_diffuse (selected k this scene ! 0))))
                   (the (load_texture scene (texture_specular (selected k this scene ! 0))))
                   (the (load_texture scene (texture_normal (selected k this scene ! 0))))
               @ mesh_events (selected k this scene ! 0) (length (selected k this scene))\<rparr>)"
proof -
  from reach have "0 < length (selected k this scene)"
    by (simp add: reaches_transforms_def)
  then obtain mt where mt: "transform_buffer_after this (length (selected k this scene))
       (pack_model_transforms fr (selected k this scene)) (next_buffer_id sys) = Some mt"
    by (rule transform_buffer_after_Some)
  from render_reaches [OF reach, of fr sys] obtain nb where
    r: "render k fr this scene sys =
    bind_and_draw fr
      (this\<lparr>model_transforms :=
          transform_buffer_after this (length (selected k this scene))
            (pack_model_transforms fr (selected k this scene)) (next_buffer_id sys)\<rparr>)
      scene (selected k this scene)
      (the (load_texture scene (texture_diffuse (selected k this scene ! 0))))
      (the (load_texture scene (texture_specular (selected k this scene ! 0))))
      (the (load_texture scene (texture_normal (selected k this scene ! 0))))
      (sys\<lparr>next_buffer_id := nb,
           events := events sys
             @ begin_events this scene (selected k this scene ! 0)
             @ transform_events this (length (selected k this scene))
                 (pack_model_transforms fr (selected k this scene)) (next_buffer_id sys)\<rparr>)"
    by blast
  show ?thesis
    by (intro exI [of _ mt] exI [of _ nb])
      (simp add: r mt bind_and_draw_eq [where ub = ub and mt = mt] ub)
qed

lemma recorded_update:
  "recorded sys (sys\<lparr>next_buffer_id := nb, events := events sys @ es\<rparr>) = es"
  by (simp add: recorded_def)

lemma render_result:
  assumes "uniform_buffer this = Some ub"
  shows "fst (render k fr this scene sys) = Inr ()
     \<or> fst (render k fr this scene sys) = Inl ModelDataRejected
     \<or> (\<exists>e. fst (render k fr this scene sys) = Inl (TextureLoadRejected e))"
proof (cases "reaches_transforms k this scene")
  case True
  from render_complete [OF True assms, of fr sys] show ?thesis
    by (auto simp: mesh_result_def split: option.splits)
next
  case False
  show ?thesis
  proof (cases "selected k this scene = [] \<or> texture_view scene = None \<or> depth_texture_view scene = None")
    case True
    then show ?thesis by (simp add: render_skip)
  next
    case nskip: False
    then obtain tv dv where v: "selected k this scene \<noteq> []" "texture_view scene = Some tv"
      "depth_texture_view scene = Some dv" by auto
    with False have "\<not> textures_resolve scene (selected k this scene ! 0)"
      by (simp add: reaches_transforms_def)
    from render_rejected [OF v this, of fr sys] show ?thesis by auto
  qed
qed

subsection \<open>The example pipeline\<close>

lemma ex_pipeline_eq:
  "ex_pipeline = \<lparr>shader_path = ''shader.wgsl'', gpu_pipeline = 7, model_transforms = None,
      uniform_buffer = Some \<lparr>buffer_id = 10, buffer_size = 464, contents = replicate 116 0,
         usage = GPUBufferUsage_UNIFORM OR GPUBufferUsage_COPY_DST\<rparr>\<rparr>"
  by (simp add: ex_pipeline_def construct_pipeline_def create_gpu_buffer_def ex_sys_def
      Float32Array_def DEFAULT_3D_UNIFORM_DATA_SIZE_FLOAT_def Let_def)

lemma ex_sys1_eq:
  "ex_sys1 = \<lparr>next_buffer_id = 11,
      events = [CreateBuffer 10 464 (replicate 116 0)
                  (GPUBufferUsage_UNIFORM OR GPUBufferUsage_COPY_DST)]\<rparr>"
  by (simp add: ex_sys1_def construct_pipeline_def create_gpu_buffer_def ex_sys_def emit_def
      Float32Array_def DEFAULT_3D_UNIFORM_DATA_SIZE_FLOAT_def Let_def)

lemma ex_selected:
  "selected label_key this (ex_scene_of objs ls)
     = filter (\<lambda>obj. pipeline_key obj = ''default_3d'') objs"
  by (simp add: selected_def get_pipeline_key_def label_key_def get_pipeline_label_def
      ex_scene_of_def)

lemma ex_reaches:
  "reaches_transforms label_key this (ex_scene_of objs ls)
     = (filter (\<lambda>obj. pipeline_key obj = ''default_3d'') objs \<noteq> [])"
  by (simp add: reaches_transforms_def ex_selected textures_resolve_def)
    (simp add: ex_scene_of_def ex_load_texture_def split: option.splits)

section \<open>Lights\<close>

lemma frame_uniform_data_eq:
  "frame_uniform_data fr obj scene =
     ([fr (flag (has_texture_diffuse obj)), fr (flag (has_texture_specular obj)),
       fr (flag (has_texture_normal obj)), fr (real (length (lights scene)))]
      @ map fr (get_view_matrix (camera scene)) @ map fr (get_projection_matrix (camera scene)))
     @ map fr (concat (map (\<lambda>l. position l @ [0] @ color l) (lights scene)))"
  by (simp add: frame_uniform_data_def uniform_data_def Float32Array_def pack_lights_concat)

lemma frame_uniform_data_length:
  assumes "wf_uniform_input scene"
  shows "length (frame_uniform_data fr obj scene) = 36 + 8 * length (lights scene)"
proof -
  from assms have v: "length (get_view_matrix (camera scene)) = 16"
    and p: "length (get_projection_matrix (camera scene)) = 16"
    and l: "\<forall>l\<in>set (lights scene). length (position l @ [0] @ color l) = 8"
    by (simp_all add: wf_uniform_input_def mat4_def list_all_iff)
  from length_concat_chunks [OF l] show ?thesis
    by (simp add: frame_uniform_data_eq v p)
qed

lemma render_uniform_buffer:
  assumes "reaches_transforms k this scene" and "uniform_buffer this = Some ub"
  shows "uniform_buffer (fst (snd (render k fr this scene sys)))
     = Some (overwrite ub 0 (frame_uniform_data fr (selected k this scene ! 0) scene))"
  using render_complete [OF assms, of fr sys] by auto

text \<open>
  Claim C3, as amended. In every call that gets as far as the uniform write, the
  uniform data that \<^verbatim>\<open>render\<close> hands to \<^verbatim>\<open>writeBuffer\<close> has at index 3 the length of
  the scene's light list (as a 32-bit float) and, after the header and the two matrices,
  every light of the list in order: its position, a literal zero, its colour.
  \<^verbatim>\<open>render\<close> puts no bound on the number of lights: nothing is truncated or clamped,
  and the outcome of the call is that of the mesh await whatever the number of lights.
  The data gets into the uniform buffer only when it fits. When it does, the buffer
  holds it from offset 0 afterwards; when it is longer than the buffer, the device
  refuses the write and the uniform buffer is as before. For a uniform buffer of 116
  floats, and inputs of the shape their types give, the data fits exactly when the
  scene has at most 10 lights.
\<close>

theorem lights_reach_buffer_when_they_fit:
  assumes reach: "reaches_transforms k this scene" and ub: "uniform_buffer this = Some ub"
  shows "fst (render k fr this scene sys)
         = (case get_model_data (selected k this scene ! 0) of
              None \<Rightarrow> Inl ModelDataRejected
            | Some md \<Rightarrow> Inr ())
     \<and> WriteBuffer (buffer_id ub) 0 (frame_uniform_data fr (selected k this scene ! 0) scene)
         \<in> set (recorded sys (snd (snd (render k fr this scene sys))))
     \<and> frame_uniform_data fr (selected k this scene ! 0) scene ! 3
         = fr (real (length (lights scene)))
     \<and> drop (4 + length (get_view_matrix (camera scene))
               + length (get_projection_matrix (camera scene)))
          (frame_uniform_data fr (selected k this scene ! 0) scene)
         = map fr (concat (map (\<lambda>l. position l @ [0] @ color l) (lights scene)))
     \<and> (4 * length (frame_uniform_data fr (selected k this scene ! 0) scene) \<le> buffer_size ub \<longrightarrow>
          (\<exists>ub'. uniform_buffer (fst (snd (render k fr this scene sys))) = Some ub'
             \<and> buffer_id ub' = buffer_id ub \<and> buffer_size ub' = buffer_size ub
             \<and> take (length (frame_uniform_data fr (selected k this scene ! 0) scene)) (contents ub')
                 = frame_uniform_data fr (selected k this scene ! 0) scene
             \<and> drop (length (frame_uniform_data fr (selected k this scene ! 0) scene)) (contents ub')
                 = drop (length (frame_uniform_data fr (selected k this scene ! 0) scene))
                     (contents ub)))
     \<and> (buffer_size ub < 4 * length (frame_uniform_data fr (selected k this scene ! 0) scene) \<longrightarrow>
          uniform_buffer (fst (snd (render k fr this scene sys))) = Some ub)
     \<and> (wf_uniform_input scene \<and> buffer_size ub = 4 * DEFAULT_3D_UNIFORM_DATA_SIZE_FLOAT \<longrightarrow>
          (4 * length (frame_uniform_data fr (selected k this scene ! 0) scene) \<le> buffer_size ub)
            = (length (lights scene) \<le> 10))"
proof -
  let ?d = "frame_uniform_data fr (selected k this scene ! 0) scene"
  let ?this' = "fst (snd (render k fr this scene sys))"
  from render_complete [OF assms, of fr sys] obtain mt nb where
    r: "render k fr this scene sys =
       (mesh_result (selected k this scene ! 0),
        this\<lparr>model_transforms := Some mt, uniform_buffer := Some (overwrite ub 0 ?d)\<rparr>,
        sys\<lparr>next_buffer_id := nb,
             events := events sys
               @ (begin_events this scene (selected k this scene ! 0)
               @ transform_events this (length (selected k this scene))
                   (pack_model_transforms fr (selected k this scene)) (next_buffer_id sys)
               @ [WriteBuffer (buffer_id ub) 0 ?d]
               @ bind_events ub mt
                   (the (load_texture scene (texture_diffuse (selected k this scene ! 0))))
                   (the (load_texture scene (texture_specular (selected k this scene ! 0))))
                   (the (load_texture scene (texture_normal (selected k this scene ! 0))))
               @ mesh_events (selected k this scene ! 0) (length (selected k this scene)))\<rparr>)"
    by auto
  have res: "fst (render k fr this scene sys)
         = (case get_model_data (selected k this scene ! 0) of
              None \<Rightarrow> Inl ModelDataRejected
            | Some md \<Rightarrow> Inr ())"
    by (simp add: r mesh_result_def)
  have ev: "WriteBuffer (buffer_id ub) 0 ?d \<in> set (recorded sys (snd (snd (render k fr this scene sys))))"
    by (simp add: r recorded_update)
  have count: "?d ! 3 = fr (real (length (lights scene)))"
    by (simp add: frame_uniform_data_eq)
  have all: "drop (4 + length (get_view_matrix (camera scene))
               + length (get_projection_matrix (camera scene))) ?d
         = map fr (concat (map (\<lambda>l. position l @ [0] @ color l) (lights scene)))"
    by (subst frame_uniform_data_eq, subst drop_append) simp
  have after: "uniform_buffer ?this' = Some (overwrite ub 0 ?d)"
    by (rule render_uniform_buffer [OF assms])
  have fits: "\<exists>ub'. uniform_buffer ?this' = Some ub'
             \<and> buffer_id ub' = buffer_id ub \<and> buffer_size ub' = buffer_size ub
             \<and> take (length ?d) (contents ub') = ?d
             \<and> drop (length ?d) (contents ub') = drop (length ?d) (contents ub)"
    if "4 * length ?d \<le> buffer_size ub"
    by (intro exI [of _ "overwrite ub 0 ?d"])
      (simp add: after overwrite_id overwrite_size overwrite_fits [OF that])
  have toobig: "uniform_buffer ?this' = Some ub" if "buffer_size ub < 4 * length ?d"
    using that by (simp add: after overwrite_def)
  have ten: "(4 * length ?d \<le> buffer_size ub) = (length (lights scene) \<le> 10)"
    if "wf_uniform_input scene \<and> buffer_size ub = 4 * DEFAULT_3D_UNIFORM_DATA_SIZE_FLOAT"
    using that
    by (auto simp: frame_uniform_data_length DEFAULT_3D_UNIFORM_DATA_SIZE_FLOAT_def)
  from res ev count all fits toobig ten show ?thesis by blast
qed

lemma ex_uniform_buffer:
  "uniform_buffer ex_pipeline = Some \<lparr>buffer_id = 10, buffer_size = 464,
      contents = replicate 116 0, usage = GPUBufferUsage_UNIFORM OR GPUBufferUsage_COPY_DST\<rparr>"
  by (simp add: ex_pipeline_eq)

lemma ex_wf_uniform_input:
  "wf_uniform_input ex_scene" "wf_uniform_input ex_scene_11_lights"
  by (simp_all add: wf_uniform_input_def mat4_def ex_scene_def ex_scene_11_lights_def
      ex_scene_of_def identity_matrix_def ex_light_def list_all_iff)

theorem lights_reach_buffer_when_they_fit_witness:
  "reaches_transforms label_key ex_pipeline ex_scene
   \<and> length (lights ex_scene) = 2
   \<and> fst (render label_key id ex_pipeline ex_scene ex_sys1) = Inr ()
   \<and> (\<exists>ub'. uniform_buffer (fst (snd (render label_key id ex_pipeline ex_scene ex_sys1))) = Some ub'
         \<and> contents ub' ! 3 = 2)"
proof -
  let ?o = "selected label_key ex_pipeline ex_scene ! 0"
  let ?d = "frame_uniform_data id ?o ex_scene"
  let ?ub = "\<lparr>buffer_id = 10, buffer_size = 464, contents = replicate 116 0,
      usage = GPUBufferUsage_UNIFORM OR GPUBufferUsage_COPY_DST\<rparr>"
  have r: "reaches_transforms label_key ex_pipeline ex_scene"
    by (simp add: ex_scene_def ex_reaches ex_object_def)
  have n: "length (lights ex_scene) = 2"
    by (simp add: ex_scene_def ex_scene_of_def)
  have m: "get_model_data ?o \<noteq> None"
    by (simp add: ex_scene_def ex_selected ex_object_def)
  have len: "length ?d = 52"
    by (simp add: frame_uniform_data_length [OF ex_wf_uniform_input(1)] n)
  note t = lights_reach_buffer_when_they_fit [OF r ex_uniform_buffer, of id ex_sys1]
  from t m have res: "fst (render label_key id ex_pipeline ex_scene ex_sys1) = Inr ()"
    by auto
  from t have c: "?d ! 3 = id (real (length (lights ex_scene)))"
    by blast
  from t len obtain ub' :: GPUBuffer where
    u: "uniform_buffer (fst (snd (render label_key id ex_pipeline ex_scene ex_sys1))) = Some ub'"
    and k: "take (length ?d) (contents ub') = ?d"
    by auto
  have "contents ub' ! 3 = take (length ?d) (contents ub') ! 3"
    by (simp add: len)
  also have "\<dots> = 2"
    by (simp only: k c) (simp add: n)
  finally have "contents ub' ! 3 = 2" .
  with u r n res show ?thesis by blast
qed

text \<open>
  The claim as it was stated has the light count written into the uniform buffer also
  when the list has more than 10 lights. With eleven lights the data has 124 floats,
  the uniform buffer has room for 116, and it still holds its 116 zeros afterwards: the
  light count in it is 0, not 11.
\<close>

theorem eleven_lights_not_written_counterexample:
  "length (lights ex_scene_11_lights) = 11
   \<and> uniform_buffer (fst (snd (render label_key id ex_pipeline ex_scene_11_lights ex_sys1)))
       = Some \<lparr>buffer_id = 10, buffer_size = 464, contents = replicate 116 0,
               usage = GPUBufferUsage_UNIFORM OR GPUBufferUsage_COPY_DST\<rparr>
   \<and> replicate 116 (0::real) ! 3 = 0"
proof -
  have r: "reaches_transforms label_key ex_pipeline ex_scene_11_lights"
    by (simp add: ex_scene_11_lights_def ex_reaches ex_object_def)
  have n: "length (lights ex_scene_11_lights) = 11"
    by (simp add: ex_scene_11_lights_def ex_scene_of_def)
  have len: "length (frame_uniform_data id obj ex_scene_11_lights) = 124" for obj
    by (simp add: frame_uniform_data_length [OF ex_wf_uniform_input(2)] n)
  from render_uniform_buffer [OF r ex_uniform_buffer, of id ex_sys1] show ?thesis
    by (simp add: n overwrite_def len)
qed

section \<open>The first selected object\<close>

text \<open>
  Claim C8. In every call that is not skipped, whose textures resolve and whose uniform
  buffer is in place, with \<open>object_0\<close> the first selected object and \<open>others\<close> the
  rest: the three texture awaits are those for the texture identifiers of \<open>object_0\<close>
  and there is no other texture await; the three presence flags at the head of the
  uniform data are those of \<open>object_0\<close>; the bind group holds the textures resolved
  for \<open>object_0\<close>; the mesh awaited is that of \<open>object_0\<close>, and when it arrives the
  vertex buffer, the index buffer and the index count of the draw are its own. When the
  mesh is rejected nothing is drawn. The other selected objects enter the packed
  transforms and the instance count only.
\<close>

theorem first_object_supplies_textures_and_mesh:
  assumes reach: "reaches_transforms k this scene"
    and ub: "uniform_buffer this = Some ub"
    and sel: "selected k this scene = object_0 # others"
  shows "(\<exists>mt.
      model_transforms (fst (snd (render k fr this scene sys))) = Some mt
      \<and> recorded sys (snd (snd (render k fr this scene sys))) =
        [BeginRenderPass (the (texture_view scene)) (the (depth_texture_view scene)),
         SetPipeline (gpu_pipeline this),
         AwaitLoadTexture (texture_diffuse object_0),
         AwaitLoadTexture (texture_specular object_0),
         AwaitLoadTexture (texture_normal object_0)]
        @ transform_events this (Suc (length others))
            (pack_model_transforms fr (object_0 # others)) (next_buffer_id sys)
        @ [WriteBuffer (buffer_id ub) 0
             (uniform_data fr (flag (has_texture_diffuse object_0))
                (flag (has_texture_specular object_0)) (flag (has_texture_normal object_0)) scene),
           CreateSampler,
           CreateBindGroup
             [(0, BufferBinding (buffer_id ub) 0 (buffer_size ub)),
              (1, SamplerBinding),
              (2, TextureViewBinding (the (load_texture scene (texture_diffuse object_0)))),
              (3, TextureViewBinding (the (load_texture scene (texture_specular object_0)))),
              (4, TextureViewBinding (the (load_texture scene (texture_normal object_0)))),
              (5, BufferBinding (buffer_id mt) 0 (buffer_size mt))],
           SetBindGroup 0,
           AwaitGetModelData]
        @ (case get_model_data object_0 of
             None \<Rightarrow> []
           | Some md \<Rightarrow>
               [SetVertexBuffer 0 (vertex_data_gpu md),
                SetIndexBuffer (indices_gpu md),
                DrawIndexed (index_count md) (Suc (length others)) 0 0 0,
                EndPass]))
    \<and> filter is_texture_await (recorded sys (snd (snd (render k fr this scene sys))))
        = [AwaitLoadTexture (texture_diffuse object_0),
           AwaitLoadTexture (texture_specular object_0),
           AwaitLoadTexture (texture_normal object_0)]
    \<and> take 3 (uniform_data fr (flag (has_texture_diffuse object_0))
                (flag (has_texture_specular object_0)) (flag (has_texture_normal object_0)) scene)
         = [fr (flag (has_texture_diffuse object_0)), fr (flag (has_texture_specular object_0)),
            fr (flag (has_texture_normal object_0))]"
proof -
  have o: "selected k this scene ! 0 = object_0"
    and n: "length (selected k this scene) = Suc (length others)"
    by (simp_all add: sel)
  let ?t = "transform_events this (Suc (length others))
            (pack_model_transforms fr (object_0 # others)) (next_buffer_id sys)"
  from render_complete [OF reach ub, of fr sys] obtain mt nb where
    r: "render k fr this scene sys =
       (mesh_result (selected k this scene ! 0),
        this\<lparr>model_transforms := Some mt,
             uniform_buffer :=
               Some (overwrite ub 0 (frame_uniform_data fr (selected k this scene ! 0) scene))\<rparr>,
        sys\<lparr>next_buffer_id := nb,
             events := events sys
               @ (begin_events this scene (selected k this scene ! 0)
               @ transform_events this (length (selected k this scene))
                   (pack_model_transforms fr (selected k this scene)) (next_buffer_id sys)
               @ [WriteBuffer (buffer_id ub) 0
                    (frame_uniform_data fr (selected k this scene ! 0) scene)]
               @ bind_events ub mt
                   (the (load_texture scene (texture_diffuse (selected k this scene ! 0))))
                   (the (load_texture scene (texture_specular (selected k this scene ! 0))))
                   (the (load_texture scene (texture_normal (selected k this scene ! 0))))
               @ mesh_events (selected k this scene ! 0) (length (selected k this scene)))\<rparr>)"
    by auto
  have rec: "recorded sys (snd (snd (render k fr this scene sys))) =
        [BeginRenderPass (the (texture_view scene)) (the (depth_texture_view scene)),
         SetPipeline (gpu_pipeline this),
         AwaitLoadTexture (texture_diffuse object_0),
         AwaitLoadTexture (texture_specular object_0),
         AwaitLoadTexture (texture_normal object_0)]
        @ ?t
        @ [WriteBuffer (buffer_id ub) 0
             (uniform_data fr (flag (has_texture_diffuse object_0))
                (flag (has_texture_specular object_0)) (flag (has_texture_normal object_0)) scene),
           CreateSampler,
           CreateBindGroup
             [(0, BufferBinding (buffer_id ub) 0 (buffer_size ub)),
              (1, SamplerBinding),
              (2, TextureViewBinding (the (load_texture scene (texture_diffuse object_0)))),
              (3, TextureViewBinding (the (load_texture scene (texture_specular object_0)))),
              (4, TextureViewBinding (the (load_texture scene (texture_normal object_0)))),
              (5, BufferBinding (buffer_id mt) 0 (buffer_size mt))],
           SetBindGroup 0,
           AwaitGetModelData]
        @ (case get_model_data object_0 of
             None \<Rightarrow> []
           | Some md \<Rightarrow>
               [SetVertexBuffer 0 (vertex_data_gpu md),
                SetIndexBuffer (indices_gpu md),
                DrawIndexed (index_count md) (Suc (length others)) 0 0 0,
                EndPass])"
    by (simp add: r recorded_update o n sel begin_events_def bind_events_def draw_events_def
        mesh_events_def frame_uniform_data_def split: option.splits)
  have m: "model_transforms (fst (snd (render k fr this scene sys))) = Some mt"
    by (simp add: r)
  have awaits: "filter is_texture_await (recorded sys (snd (snd (render k fr this scene sys))))
        = [AwaitLoadTexture (texture_diffuse object_0),
           AwaitLoadTexture (texture_specular object_0),
           AwaitLoadTexture (texture_normal object_0)]"
    unfolding rec
    by (simp add: transform_events_no_await split: option.splits)
  have flags: "take 3 (uniform_data fr (flag (has_texture_diffuse object_0))
                (flag (has_texture_specular object_0)) (flag (has_texture_normal object_0)) scene)
         = [fr (flag (has_texture_diffuse object_0)), fr (flag (has_texture_specular object_0)),
            fr (flag (has_texture_normal object_0))]"
    by (simp add: uniform_data_def Float32Array_def)
  from m rec awaits flags show ?thesis by blast
qed

theorem first_object_supplies_textures_and_mesh_witness:
  "reaches_transforms label_key ex_pipeline ex_scene
   \<and> selected label_key ex_pipeline ex_scene
       = [ex_object ''default_3d'' 3, ex_object ''default_3d'' 4]
   \<and> take 5 (recorded ex_sys1 (snd (snd (render label_key id ex_pipeline ex_scene ex_sys1))))
       = [BeginRenderPass 1 2, SetPipeline 7, AwaitLoadTexture (Some ''wood.png''),
          AwaitLoadTexture None, AwaitLoadTexture None]
   \<and> SetVertexBuffer 0 103
       \<in> set (recorded ex_sys1 (snd (snd (render label_key id ex_pipeline ex_scene ex_sys1))))
   \<and> DrawIndexed 36 2 0 0 0
       \<in> set (recorded ex_sys1 (snd (snd (render label_key id ex_pipeline ex_scene ex_sys1))))"
proof -
  let ?o = "ex_object ''default_3d'' 3"
  let ?rec = "recorded ex_sys1 (snd (snd (render label_key id ex_pipeline ex_scene ex_sys1)))"
  have r: "reaches_transforms label_key ex_pipeline ex_scene"
    by (simp add: ex_scene_def ex_reaches ex_object_def)
  have u: "uniform_buffer ex_pipeline = Some (the (uniform_buffer ex_pipeline))"
    by (simp add: ex_pipeline_eq)
  have s: "selected label_key ex_pipeline ex_scene = ?o # [ex_object ''default_3d'' 4]"
    by (simp add: ex_scene_def ex_selected ex_object_def)
  have v: "texture_view ex_scene = Some 1" "depth_texture_view ex_scene = Some 2"
    by (simp_all add: ex_scene_def ex_scene_of_def)
  have o: "texture_diffuse ?o = Some ''wood.png''" "texture_specular ?o = None"
    "texture_normal ?o = None" "get_model_data ?o =
       Some \<lparr>vertex_data_gpu = 103, indices_gpu = 203, index_count = 36\<rparr>"
    by (simp_all add: ex_object_def)
  have p: "gpu_pipeline ex_pipeline = 7"
    by (simp add: ex_pipeline_eq)
  from first_object_supplies_textures_and_mesh [OF r u s, of id ex_sys1]
  obtain t w g where
    "?rec = [BeginRenderPass (the (texture_view ex_scene)) (the (depth_texture_view ex_scene)),
         SetPipeline (gpu_pipeline ex_pipeline),
         AwaitLoadTexture (texture_diffuse ?o),
         AwaitLoadTexture (texture_specular ?o),
         AwaitLoadTexture (texture_normal ?o)]
        @ t
        @ [w, CreateSampler, g, SetBindGroup 0, AwaitGetModelData]
        @ (case get_model_data ?o of
             None \<Rightarrow> []
           | Some md \<Rightarrow>
               [SetVertexBuffer 0 (vertex_data_gpu md),
                SetIndexBuffer (indices_gpu md),
                DrawIndexed (index_count md) (Suc (length [ex_object ''default_3d'' 4])) 0 0 0,
                EndPass])"
    by blast
  then have "?rec = [BeginRenderPass 1 2, SetPipeline 7, AwaitLoadTexture (Some ''wood.png''),
          AwaitLoadTexture None, AwaitLoadTexture None]
        @ t
        @ [w, CreateSampler, g, SetBindGroup 0, AwaitGetModelData,
           SetVertexBuffer 0 103, SetIndexBuffer 203, DrawIndexed 36 2 0 0 0, EndPass]"
    by (simp add: v o p)
  then have "take 5 ?rec = [BeginRenderPass 1 2, SetPipeline 7, AwaitLoadTexture (Some ''wood.png''),
          AwaitLoadTexture None, AwaitLoadTexture None]"
    and "SetVertexBuffer 0 103 \<in> set ?rec" and "DrawIndexed 36 2 0 0 0 \<in> set ?rec"
    by simp_all
  with r s show ?thesis by simp
qed

section \<open>Routing and instancing\<close>

lemma selected_subset: "set (selected k this scene) \<subseteq> set (objects scene)"
  by (auto simp: selected_def)

lemma pack_model_transforms_length:
  assumes "wf_objects scene"
  shows "length (pack_model_transforms fr (selected k this scene)) = 16 * length (selected k this scene)"
proof -
  from assms have "\<forall>obj\<in>set (selected k this scene). length (get_model_matrix obj) = 16"
    using selected_subset [of k this scene] by (auto simp: wf_objects_def list_all_iff mat4_def)
  from length_concat_chunks [OF this] show ?thesis
    by (simp add: pack_model_transforms_def Float32Array_def)
qed

lemma pack_model_transforms_chunk:
  assumes "wf_objects scene" "i < length (selected k this scene)"
  shows "take 16 (drop (16 * i) (pack_model_transforms fr (selected k this scene)))
     = map fr (get_model_matrix (selected k this scene ! i))"
proof -
  from assms have "\<forall>obj\<in>set (selected k this scene). length (get_model_matrix obj) = 16"
    using selected_subset [of k this scene] by (auto simp: wf_objects_def list_all_iff mat4_def)
  from chunk_of_concat [OF this assms(2)] show ?thesis
    by (simp add: pack_model_transforms_def Float32Array_def take_map drop_map)
qed

text \<open>With matrices of 16 floats, the transform buffer afterwards starts with the packed data.\<close>

lemma transform_buffer_after_contents:
  assumes "length d = 16 * n" "transform_buffer_after this n d i = Some mt"
  shows "take (length d) (contents mt) = d"
proof (cases "n * 16 * 4 > current_model_transforms_size this")
  case True
  with assms(2) show ?thesis
    by (auto simp: transform_buffer_after_def the_new_buffer_def)
next
  case False
  with assms(2) obtain b where b: "model_transforms this = Some b" "mt = overwrite b 0 d"
    by (auto simp: transform_buffer_after_def)
  with False assms(1) have "4 * length d \<le> buffer_size b"
    by (simp add: current_model_transforms_size_def)
  then show ?thesis
    by (simp add: b overwrite_fits)
qed

lemma transform_events_no_draw: "filter is_draw (transform_events this n d i) = []"
  by (simp add: transform_events_def destroy_events_def split: option.splits)

text \<open>
  Claim C7. \<^verbatim>\<open>render\<close> selects exactly the objects of the scene whose pipeline key
  is this pipeline's key, in the order of the scene. In every call that is not skipped,
  whose textures resolve and whose uniform buffer is in place, the packed transforms
  are the model matrices of the selected objects, one after the other in that order, 16
  floats each, and the transform buffer bound at binding 5 holds, at floats \<open>16 * i\<close>
  to \<open>16 * i + 15\<close>, the model matrix of the \<open>i\<close>-th selected object. When the mesh
  of the first selected object arrives there is exactly one draw, and its instance
  count is the number of selected objects; when the mesh is rejected there is no draw.
  Model matrices are taken to have 16 floats, as \<^verbatim>\<open>mat4\<close> says.
\<close>

theorem instanced_draw_of_selected_objects:
  assumes reach: "reaches_transforms k this scene"
    and ub: "uniform_buffer this = Some ub"
    and wf: "wf_objects scene"
  shows "selected k this scene
           = filter (\<lambda>obj. pipeline_key obj = get_pipeline_key k (shader_path this)) (objects scene)
     \<and> pack_model_transforms fr (selected k this scene)
           = map fr (concat (map get_model_matrix (selected k this scene)))
     \<and> length (pack_model_transforms fr (selected k this scene)) = 16 * length (selected k this scene)
     \<and> (\<exists>mt.
           model_transforms (fst (snd (render k fr this scene sys))) = Some mt
         \<and> recorded sys (snd (snd (render k fr this scene sys))) =
             begin_events this scene (selected k this scene ! 0)
             @ transform_events this (length (selected k this scene))
                 (pack_model_transforms fr (selected k this scene)) (next_buffer_id sys)
             @ [WriteBuffer (buffer_id ub) 0
                  (frame_uniform_data fr (selected k this scene ! 0) scene),
                CreateSampler,
                CreateBindGroup
                  [(0, BufferBinding (buffer_id ub) 0 (buffer_size ub)),
                   (1, SamplerBinding),
                   (2, TextureViewBinding
                         (the (load_texture scene (texture_diffuse (selected k this scene ! 0))))),
                   (3, TextureViewBinding
                         (the (load_texture scene (texture_specular (selected k this scene ! 0))))),
                   (4, TextureViewBinding
                         (the (load_texture scene (texture_normal (selected k this scene ! 0))))),
                   (5, BufferBinding (buffer_id mt) 0 (buffer_size mt))],
                SetBindGroup 0,
                AwaitGetModelData]
             @ (case get_model_data (selected k this scene ! 0) of
                  None \<Rightarrow> []
                | Some md \<Rightarrow>
                    [SetVertexBuffer 0 (vertex_data_gpu md),
                     SetIndexBuffer (indices_gpu md),
                     DrawIndexed (index_count md) (length (selected k this scene)) 0 0 0,
                     EndPass])
         \<and> filter is_draw (recorded sys (snd (snd (render k fr this scene sys)))) =
             (case get_model_data (selected k this scene ! 0) of
                None \<Rightarrow> []
              | Some md \<Rightarrow> [DrawIndexed (index_count md) (length (selected k this scene)) 0 0 0])
         \<and> take (16 * length (selected k this scene)) (contents mt)
             = pack_model_transforms fr (selected k this scene)
         \<and> (\<forall>i < length (selected k this scene).
               take 16 (drop (16 * i) (contents mt))
                 = map fr (get_model_matrix (selected k this scene ! i))))"
proof -
  let ?sel = "selected k this scene"
  let ?d = "pack_model_transforms fr ?sel"
  let ?rec = "recorded sys (snd (snd (render k fr this scene sys)))"
  have len: "length ?d = 16 * length ?sel"
    by (rule pack_model_transforms_length [OF wf])
  from render_complete [OF reach ub, of fr sys] obtain mt nb where
    mt: "transform_buffer_after this (length ?sel) ?d (next_buffer_id sys) = Some mt" and
    r: "render k fr this scene sys =
       (mesh_result (?sel ! 0),
        this\<lparr>model_transforms := Some mt,
             uniform_buffer :=
               Some (overwrite ub 0 (frame_uniform_data fr (?sel ! 0) scene))\<rparr>,
        sys\<lparr>next_buffer_id := nb,
             events := events sys
               @ (begin_events this scene (?sel ! 0)
               @ transform_events this (length ?sel) ?d (next_buffer_id sys)
               @ [WriteBuffer (buffer_id ub) 0 (frame_uniform_data fr (?sel ! 0) scene)]
               @ bind_events ub mt
                   (the (load_texture scene (texture_diffuse (?sel ! 0))))
                   (the (load_texture scene (texture_specular (?sel ! 0))))
                   (the (load_texture scene (texture_normal (?sel ! 0))))
               @ mesh_events (?sel ! 0) (length ?sel))\<rparr>)"
    by auto
  have c: "take (16 * length ?sel) (contents mt) = ?d"
    using transform_buffer_after_contents [OF len mt] by (simp add: len)
  have chunks: "take 16 (drop (16 * i) (contents mt)) = map fr (get_model_matrix (?sel ! i))"
    if i: "i < length ?sel" for i
  proof -
    from i have "16 * i + 16 \<le> 16 * length ?sel" by simp
    then have "take 16 (drop (16 * i) (contents mt))
        = take 16 (drop (16 * i) (take (16 * length ?sel) (contents mt)))"
      by (simp add: drop_take min_def)
    also have "\<dots> = map fr (get_model_matrix (?sel ! i))"
      by (simp only: c pack_model_transforms_chunk [OF wf i])
    finally show ?thesis .
  qed
  have ev: "?rec =
             begin_events this scene (?sel ! 0)
             @ transform_events this (length ?sel) ?d (next_buffer_id sys)
             @ [WriteBuffer (buffer_id ub) 0 (frame_uniform_data fr (?sel ! 0) scene),
                CreateSampler,
                CreateBindGroup
                  [(0, BufferBinding (buffer_id ub) 0 (buffer_size ub)),
                   (1, SamplerBinding),
                   (2, TextureViewBinding (the (load_texture scene (texture_diffuse (?sel ! 0))))),
                   (3, TextureViewBinding (the (load_texture scene (texture_specular (?sel ! 0))))),
                   (4, TextureViewBinding (the (load_texture scene (texture_normal (?sel ! 0))))),
                   (5, BufferBinding (buffer_id mt) 0 (buffer_size mt))],
                SetBindGroup 0,
                AwaitGetModelData]
             @ (case get_model_data (?sel ! 0) of
                  None \<Rightarrow> []
                | Some md \<Rightarrow>
                    [SetVertexBuffer 0 (vertex_data_gpu md),
                     SetIndexBuffer (indices_gpu md),
                     DrawIndexed (index_count md) (length ?sel) 0 0 0,
                     EndPass])"
    by (simp add: r recorded_update bind_events_def draw_events_def mesh_events_def
        split: option.splits)
  have draws: "filter is_draw ?rec =
             (case get_model_data (?sel ! 0) of
                None \<Rightarrow> []
              | Some md \<Rightarrow> [DrawIndexed (index_count md) (length ?sel) 0 0 0])"
    unfolding ev
    by (simp add: transform_events_no_draw begin_events_def split: option.splits)
  have m: "model_transforms (fst (snd (render k fr this scene sys))) = Some mt"
    by (simp add: r)
  have s: "?sel = filter (\<lambda>obj. pipeline_key obj = get_pipeline_key k (shader_path this)) (objects scene)"
    by (simp add: selected_def)
  have pk: "?d = map fr (concat (map get_model_matrix ?sel))"
    by (simp add: pack_model_transforms_def Float32Array_def)
  from m ev draws c chunks have "\<exists>mt.
           model_transforms (fst (snd (render k fr this scene sys))) = Some mt
         \<and> ?rec =
             begin_events this scene (?sel ! 0)
             @ transform_events this (length ?sel) ?d (next_buffer_id sys)
             @ [WriteBuffer (buffer_id ub) 0 (frame_uniform_data fr (?sel ! 0) scene),
                CreateSampler,
                CreateBindGroup
                  [(0, BufferBinding (buffer_id ub) 0 (buffer_size ub)),
                   (1, SamplerBinding),
                   (2, TextureViewBinding (the (load_texture scene (texture_diffuse (?sel ! 0))))),
                   (3, TextureViewBinding (the (load_texture scene (texture_specular (?sel ! 0))))),
                   (4, TextureViewBinding (the (load_texture scene (texture_normal (?sel ! 0))))),
                   (5, BufferBinding (buffer_id mt) 0 (buffer_size mt))],
                SetBindGroup 0,
                AwaitGetModelData]
             @ (case get_model_data (?sel ! 0) of
                  None \<Rightarrow> []
                | Some md \<Rightarrow>
                    [SetVertexBuffer 0 (vertex_data_gpu md),
                     SetIndexBuffer (indices_gpu md),
                     DrawIndexed (index_count md) (length ?sel) 0 0 0,
                     EndPass])
         \<and> filter is_draw ?rec =
             (case get_model_data (?sel ! 0) of
                None \<Rightarrow> []
              | Some md \<Rightarrow> [DrawIndexed (index_count md) (length ?sel) 0 0 0])
         \<and> take (16 * length ?sel) (contents mt) = ?d
         \<and> (\<forall>i < length ?sel.
               take 16 (drop (16 * i) (contents mt)) = map fr (get_model_matrix (?sel ! i)))"
    by blast
  with s pk len show ?thesis by blast
qed

theorem instanced_draw_of_selected_objects_witness:
  "reaches_transforms label_key ex_pipeline ex_scene \<and> wf_objects ex_scene
   \<and> selected label_key ex_pipeline ex_scene
       = [ex_object ''default_3d'' 3, ex_object ''default_3d'' 4]
   \<and> (\<exists>mt. model_transforms (fst (snd (render label_key id ex_pipeline ex_scene ex_sys1))) = Some mt
         \<and> take 16 (drop 16 (contents mt)) = [1, 0, 0, 0, 0, 1, 0, 0, 0, 0, 1, 0, 4, 0, 0, 1])
   \<and> filter is_draw (recorded ex_sys1 (snd (snd (render label_key id ex_pipeline ex_scene ex_sys1))))
       = [DrawIndexed 36 2 0 0 0]
   \<and> reaches_transforms label_key ex_pipeline ex_scene_no_mesh \<and> wf_objects ex_scene_no_mesh
   \<and> filter is_draw
        (recorded ex_sys1 (snd (snd (render label_key id ex_pipeline ex_scene_no_mesh ex_sys1))))
       = []"
proof -
  let ?rec = "recorded ex_sys1 (snd (snd (render label_key id ex_pipeline ex_scene ex_sys1)))"
  let ?sel = "selected label_key ex_pipeline ex_scene"
  let ?recn = "recorded ex_sys1 (snd (snd (render label_key id ex_pipeline ex_scene_no_mesh ex_sys1)))"
  let ?seln = "selected label_key ex_pipeline ex_scene_no_mesh"
  have r: "reaches_transforms label_key ex_pipeline ex_scene"
    by (simp add: ex_scene_def ex_reaches ex_object_def)
  have u: "uniform_buffer ex_pipeline = Some (the (uniform_buffer ex_pipeline))"
    by (simp add: ex_pipeline_eq)
  have w: "wf_objects ex_scene"
    by (simp add: wf_objects_def mat4_def ex_scene_def ex_scene_of_def ex_object_def)
  have s: "?sel = [ex_object ''default_3d'' 3, ex_object ''default_3d'' 4]"
    by (simp add: ex_scene_def ex_selected ex_object_def)
  have o: "get_model_data (ex_object ''default_3d'' 3) =
       Some \<lparr>vertex_data_gpu = 103, indices_gpu = 203, index_count = 36\<rparr>"
    "get_model_matrix (ex_object ''default_3d'' 4) = [1, 0, 0, 0, 0, 1, 0, 0, 0, 0, 1, 0, 4, 0, 0, 1]"
    by (simp_all add: ex_object_def)
  from instanced_draw_of_selected_objects [OF r u w, of id ex_sys1]
  obtain mt :: GPUBuffer where
    m: "model_transforms (fst (snd (render label_key id ex_pipeline ex_scene ex_sys1))) = Some mt"
    and e: "filter is_draw ?rec =
             (case get_model_data (?sel ! 0) of
                None \<Rightarrow> []
              | Some md \<Rightarrow> [DrawIndexed (index_count md) (length ?sel) 0 0 0])"
    and c: "\<forall>i < length ?sel. take 16 (drop (16 * i) (contents mt))
                 = map id (get_model_matrix (?sel ! i))"
    by blast
  from c [rule_format, of 1] have "take 16 (drop 16 (contents mt))
      = [1, 0, 0, 0, 0, 1, 0, 0, 0, 0, 1, 0, 4, 0, 0, 1]"
    by (simp add: s o)
  with m have a: "\<exists>mt. model_transforms (fst (snd (render label_key id ex_pipeline ex_scene ex_sys1))) = Some mt
         \<and> take 16 (drop 16 (contents mt)) = [1, 0, 0, 0, 0, 1, 0, 0, 0, 0, 1, 0, 4, 0, 0, 1]"
    by blast
  from e have b: "filter is_draw ?rec = [DrawIndexed 36 2 0 0 0]"
    by (simp add: s o)
  have r0: "reaches_transforms label_key ex_pipeline ex_scene_no_mesh"
    by (simp add: ex_scene_no_mesh_def ex_reaches ex_object_def)
  have w0: "wf_objects ex_scene_no_mesh"
    by (simp add: wf_objects_def mat4_def ex_scene_no_mesh_def ex_scene_of_def ex_object_def)
  have s0: "get_model_data (?seln ! 0) = None"
    by (simp add: ex_scene_no_mesh_def ex_selected ex_object_def)
  from instanced_draw_of_selected_objects [OF r0 u w0, of id ex_sys1]
  obtain mt0 :: GPUBuffer where
    "filter is_draw ?recn =
             (case get_model_data (?seln ! 0) of
                None \<Rightarrow> []
              | Some md \<Rightarrow> [DrawIndexed (index_count md) (length ?seln) 0 0 0])"
    by blast
  then have d: "filter is_draw ?recn = []"
    by (simp add: s0)
  from r w s a b r0 w0 d show ?thesis by blast
qed

section \<open>Texture resolution and the render pass\<close>

lemma until_textures_resolved_append:
  assumes "is_texture_await a" "filter is_texture_await ys = []"
  shows "until_textures_resolved (xs @ a # ys) = xs @ [a]"
proof -
  from assms(2) have n: "\<forall>x\<in>set ys. \<not> is_texture_await x"
    by (simp add: filter_empty_conv)
  have "dropWhile (\<lambda>e. \<not> is_texture_await e) (rev ys @ a # rev xs)
      = dropWhile (\<lambda>e. \<not> is_texture_await e) (a # rev xs)"
    by (rule dropWhile_append2) (simp add: n)
  then have "dropWhile (\<lambda>e. \<not> is_texture_await e) (rev ys @ a # rev xs) = a # rev xs"
    using assms(1) by simp
  then show ?thesis
    by (simp add: until_textures_resolved_def)
qed

lemma texture_awaits_not_commands:
  "list_all is_texture_await es \<Longrightarrow> filter is_gpu_command es = []"
proof (induction es)
  case Nil
  then show ?case by simp
next
  case (Cons e es)
  then show ?case by (cases e) (simp_all add: is_gpu_command_def)
qed

lemma until_textures_resolved_awaits:
  assumes "es \<noteq> []" "list_all is_texture_await es"
  shows "until_textures_resolved (xs @ es) = xs @ es"
proof -
  from assms obtain a as where es: "es = as @ [a]" and a: "is_texture_await a"
    by (cases es rule: rev_cases) auto
  have "until_textures_resolved ((xs @ as) @ a # []) = (xs @ as) @ [a]"
    by (rule until_textures_resolved_append [OF a]) simp
  then show ?thesis by (simp add: es)
qed

text \<open>
  Claim C2, as amended. In every call that is not skipped, \<^verbatim>\<open>render\<close> first begins
  the render pass and binds the pipeline, and only then awaits the texture resolver:
  these two commands are recorded before the first texture await, and they are the only
  commands recorded until the texture awaits are over. No buffer is destroyed, created
  or written, no bind group is made and nothing is drawn before the textures are
  resolved.
\<close>

theorem only_pass_begin_precedes_texture_awaits:
  assumes sel: "selected k this scene \<noteq> []"
    and tv: "texture_view scene = Some tv" and dv: "depth_texture_view scene = Some dv"
  shows "take 3 (recorded sys (snd (snd (render k fr this scene sys))))
       = [BeginRenderPass tv dv, SetPipeline (gpu_pipeline this),
          AwaitLoadTexture (texture_diffuse (selected k this scene ! 0))]
     \<and> filter is_gpu_command
         (until_textures_resolved (recorded sys (snd (snd (render k fr this scene sys)))))
       = [BeginRenderPass tv dv, SetPipeline (gpu_pipeline this)]"
proof (cases "textures_resolve scene (selected k this scene ! 0)")
  case True
  let ?o = "selected k this scene ! 0"
  let ?t = "transform_events this (length (selected k this scene))
                 (pack_model_transforms fr (selected k this scene)) (next_buffer_id sys)"
  from True sel tv dv have reach: "reaches_transforms k this scene"
    by (simp add: reaches_transforms_def)
  from render_events [of k fr this scene sys] reach obtain es rest where
    e: "events (snd (snd (render k fr this scene sys))) = events sys @ es"
    and es: "es = begin_events this scene ?o @ ?t @ rest"
    and rest: "filter is_texture_await rest = []"
    by auto
  have rec: "recorded sys (snd (snd (render k fr this scene sys))) =
      [BeginRenderPass tv dv, SetPipeline (gpu_pipeline this),
       AwaitLoadTexture (texture_diffuse ?o), AwaitLoadTexture (texture_specular ?o)]
      @ AwaitLoadTexture (texture_normal ?o) # (?t @ rest)"
    using recorded_append [OF e] by (simp add: es begin_events_def tv dv)
  have "until_textures_resolved (recorded sys (snd (snd (render k fr this scene sys)))) =
      [BeginRenderPass tv dv, SetPipeline (gpu_pipeline this),
       AwaitLoadTexture (texture_diffuse ?o), AwaitLoadTexture (texture_specular ?o)]
      @ [AwaitLoadTexture (texture_normal ?o)]"
    unfolding rec
    by (rule until_textures_resolved_append) (simp_all add: rest transform_events_no_await)
  then show ?thesis
    by (simp add: rec is_gpu_command_def)
next
  case False
  from render_rejected [OF sel tv dv False, of fr sys] obtain e es where
    r: "render k fr this scene sys =
      (Inl (TextureLoadRejected e), this,
       sys\<lparr>events := events sys @ [BeginRenderPass tv dv, SetPipeline (gpu_pipeline this)] @ es\<rparr>)"
    and es: "es \<noteq> []" "list_all is_texture_await es"
      "hd es = AwaitLoadTexture (texture_diffuse (selected k this scene ! 0))"
    by blast
  have rec: "recorded sys (snd (snd (render k fr this scene sys))) =
      [BeginRenderPass tv dv, SetPipeline (gpu_pipeline this)] @ es"
    by (simp add: r recorded_def)
  have "take 3 (recorded sys (snd (snd (render k fr this scene sys))))
       = [BeginRenderPass tv dv, SetPipeline (gpu_pipeline this),
          AwaitLoadTexture (texture_diffuse (selected k this scene ! 0))]"
    using es(1,3) by (cases es) (simp_all add: rec)
  moreover have "filter is_gpu_command
         (until_textures_resolved (recorded sys (snd (snd (render k fr this scene sys)))))
       = [BeginRenderPass tv dv, SetPipeline (gpu_pipeline this)]"
    unfolding rec until_textures_resolved_awaits [OF es(1,2)]
    by (simp add: texture_awaits_not_commands [OF es(2)] is_gpu_command_def)
  ultimately show ?thesis by (rule conjI)
qed

theorem only_pass_begin_precedes_texture_awaits_witness:
  "selected label_key ex_pipeline ex_scene \<noteq> []
   \<and> take 3 (recorded ex_sys1 (snd (snd (render label_key id ex_pipeline ex_scene ex_sys1))))
       = [BeginRenderPass 1 2, SetPipeline 7, AwaitLoadTexture (Some ''wood.png'')]"
proof -
  have s: "selected label_key ex_pipeline ex_scene
      = [ex_object ''default_3d'' 3, ex_object ''default_3d'' 4]"
    by (simp add: ex_scene_def ex_selected ex_object_def)
  then have n: "selected label_key ex_pipeline ex_scene \<noteq> []" by simp
  have v: "texture_view ex_scene = Some 1" "depth_texture_view ex_scene = Some 2"
    by (simp_all add: ex_scene_def ex_scene_of_def)
  have o: "texture_diffuse (ex_object ''default_3d'' 3) = Some ''wood.png''"
    by (simp add: ex_object_def)
  have p: "gpu_pipeline ex_pipeline = 7"
    by (simp add: ex_pipeline_eq)
  from only_pass_begin_precedes_texture_awaits [OF n v, where fr = id and sys = ex_sys1] n
  show ?thesis by (simp add: s o p)
qed

text \<open>
  The claim as it was stated has no command at all before the texture awaits. In the
  end-to-end scenario the pass is begun and the pipeline is bound before them.
\<close>

theorem commands_precede_texture_awaits_counterexample:
  "filter is_gpu_command
     (until_textures_resolved
        (recorded ex_sys1 (snd (snd (render label_key id ex_pipeline ex_scene ex_sys1)))))
   = [BeginRenderPass 1 2, SetPipeline 7]"
  by (simp add: render_def Let_def ex_pipeline_eq ex_sys1_eq ex_scene_def ex_scene_of_def
      ex_object_def label_key_def get_pipeline_label_def get_pipeline_key_def
      await_load_texture_def ex_load_texture_def
      grow_or_write_def bind_and_draw_def writeBuffer_def create_gpu_buffer_def
      current_model_transforms_size_def emit_def recorded_def until_textures_resolved_def
      is_gpu_command_def)

section \<open>The transform buffer\<close>

text \<open>
  Claim C9. When the set of selected objects is not empty, the needed size is at least
  64 bytes. An absent transform buffer counts as capacity 0, so it forces the
  allocation branch: whenever the write branch is taken (the needed size is at most the
  capacity) the transform buffer is there. Lines 221 to 234 therefore never fail on the
  assertion of line 233 and always leave a transform buffer, so the assertions of
  lines 286 and 288 hold too: with a uniform buffer in place, \<^verbatim>\<open>render\<close> never ends
  in the \<^verbatim>\<open>TypeError\<close> of a missing buffer.
\<close>

theorem transform_buffer_assertions_hold:
  assumes "selected k this scene \<noteq> []"
  shows "64 \<le> length (selected k this scene) * 16 * 4
     \<and> (model_transforms this = None \<longrightarrow>
          current_model_transforms_size this = 0
          \<and> length (selected k this scene) * 16 * 4 > current_model_transforms_size this)
     \<and> (length (selected k this scene) * 16 * 4 \<le> current_model_transforms_size this \<longrightarrow>
          model_transforms this \<noteq> None)
     \<and> fst (grow_or_write this (length (selected k this scene)) d sys') = Inr ()
     \<and> model_transforms (fst (snd (grow_or_write this (length (selected k this scene)) d sys')))
          \<noteq> None
     \<and> (uniform_buffer this \<noteq> None \<longrightarrow> fst (render k fr this scene sys) \<noteq> Inl TypeError)"
proof -
  let ?n = "length (selected k this scene)"
  from assms have n: "0 < ?n" by simp
  then have a: "64 \<le> ?n * 16 * 4" by arith
  have b: "current_model_transforms_size this = 0 \<and> ?n * 16 * 4 > current_model_transforms_size this"
    if "model_transforms this = None"
    using that n by (simp add: current_model_transforms_size_def)
  then have c: "model_transforms this \<noteq> None" if "?n * 16 * 4 \<le> current_model_transforms_size this"
    using that by fastforce
  have g: "fst (grow_or_write this ?n d sys') = Inr ()
      \<and> model_transforms (fst (snd (grow_or_write this ?n d sys'))) \<noteq> None"
  proof (cases "?n * 16 * 4 > current_model_transforms_size this")
    case True
    then show ?thesis by (simp add: grow_or_write_grow)
  next
    case False
    with n obtain b where "model_transforms this = Some b" by (rule absent_buffer_grows)
    with False show ?thesis by (simp add: grow_or_write_write)
  qed
  have r: "fst (render k fr this scene sys) \<noteq> Inl TypeError" if "uniform_buffer this \<noteq> None"
  proof -
    from that obtain ub where "uniform_buffer this = Some ub" by auto
    from render_result [OF this, of k fr scene sys] show ?thesis by auto
  qed
  from a b c g r show ?thesis by blast
qed

theorem transform_buffer_assertions_hold_witness:
  "selected label_key ex_pipeline ex_scene \<noteq> [] \<and> model_transforms ex_pipeline = None
   \<and> uniform_buffer ex_pipeline \<noteq> None
   \<and> fst (grow_or_write ex_pipeline (length (selected label_key ex_pipeline ex_scene)) [] ex_sys1)
       = Inr ()
   \<and> fst (render label_key id ex_pipeline ex_scene ex_sys1) \<noteq> Inl TypeError"
proof -
  have s: "selected label_key ex_pipeline ex_scene
      = [ex_object ''default_3d'' 3, ex_object ''default_3d'' 4]"
    by (simp add: ex_scene_def ex_selected ex_object_def)
  then have n: "selected label_key ex_pipeline ex_scene \<noteq> []" by simp
  have m: "model_transforms ex_pipeline = None" and u: "uniform_buffer ex_pipeline \<noteq> None"
    by (simp_all add: ex_pipeline_eq)
  from transform_buffer_assertions_hold [OF n, where d = "[]" and sys' = ex_sys1 and fr = id and sys = ex_sys1]
  show ?thesis using n m u by blast
qed

lemma transform_buffer_after_size:
  assumes "length d = 16 * n"
  shows "current_model_transforms_size this
     \<le> current_model_transforms_size (this\<lparr>model_transforms := transform_buffer_after this n d i\<rparr>)"
proof (cases "n * 16 * 4 > current_model_transforms_size this")
  case True
  with assms show ?thesis
    by (simp add: transform_buffer_after_def the_new_buffer_def current_model_transforms_size_def)
next
  case False
  then show ?thesis
    by (cases "model_transforms this")
      (simp_all add: transform_buffer_after_def current_model_transforms_size_def overwrite_size)
qed

lemma current_size_cong:
  "model_transforms a = model_transforms b \<Longrightarrow>
     current_model_transforms_size a = current_model_transforms_size b"
  by (simp add: current_model_transforms_size_def)

lemma render_capacity:
  assumes "wf_objects scene"
  shows "current_model_transforms_size this
     \<le> current_model_transforms_size (fst (snd (render k fr this scene sys)))"
proof (cases "reaches_transforms k this scene")
  case True
  let ?t = "transform_buffer_after this (length (selected k this scene))
             (pack_model_transforms fr (selected k this scene)) (next_buffer_id sys)"
  have "model_transforms (fst (snd (render k fr this scene sys)))
      = model_transforms (this\<lparr>model_transforms := ?t\<rparr>)"
    by (simp add: render_transform_buffer True)
  from current_size_cong [OF this]
    transform_buffer_after_size [OF pack_model_transforms_length [OF assms], of this]
  show ?thesis by simp
next
  case False
  then have "model_transforms (fst (snd (render k fr this scene sys))) = model_transforms this"
    by (simp add: render_transform_buffer)
  from current_size_cong [OF this] show ?thesis by simp
qed

lemma render_frames_capacity:
  assumes "list_all wf_objects scs"
  shows "current_model_transforms_size this
     \<le> current_model_transforms_size (fst (render_frames k fr this sys scs))"
  using assms
proof (induction scs arbitrary: this sys)
  case Nil
  then show ?case by simp
next
  case (Cons sc scs)
  obtain r this' sys' where r: "render k fr this sc sys = (r, this', sys')"
    by (cases "render k fr this sc sys") auto
  from Cons.prems have "wf_objects sc" and rest: "list_all wf_objects scs" by simp_all
  from render_capacity [OF this(1), of this k fr sys] r
  have "current_model_transforms_size this \<le> current_model_transforms_size this'" by simp
  also from Cons.IH [OF rest, of this' sys']
  have "\<dots> \<le> current_model_transforms_size (fst (render_frames k fr this' sys' scs))" .
  finally show ?case by (simp add: r)
qed

text \<open>
  Claim C4. Over every sequence of frames rendered on one pipeline instance, the
  capacity of the transform buffer (0 while there is none) never decreases. In one call
  the buffer is reallocated exactly when the call reaches line 221 and the needed size,
  64 bytes for each selected object, is strictly greater than the capacity: then the
  old buffer, if there is one, is destroyed, and one buffer is created with exactly the
  needed size and the packed transforms as its initial contents. In every other call no
  buffer is created or destroyed and the capacity stays as it is. Model matrices are
  taken to have 16 floats, as \<^verbatim>\<open>mat4\<close> says.
\<close>

theorem transform_buffer_grows_only:
  assumes frames: "list_all wf_objects scs" and wf: "wf_objects scene"
  shows "current_model_transforms_size this
       \<le> current_model_transforms_size (fst (render_frames k fr this sys scs))
     \<and> current_model_transforms_size this
       \<le> current_model_transforms_size (fst (snd (render k fr this scene sys)))
     \<and> filter is_realloc_event (recorded sys (snd (snd (render k fr this scene sys)))) =
         (if reaches_transforms k this scene
             \<and> length (selected k this scene) * 16 * 4 > current_model_transforms_size this
          then (case model_transforms this of
                  None \<Rightarrow> []
                | Some old \<Rightarrow> [DestroyBuffer (buffer_id old)])
               @ [CreateBuffer (next_buffer_id sys)
                    (length (selected k this scene) * 16 * 4)
                    (pack_model_transforms fr (selected k this scene))
                    (GPUBufferUsage_STORAGE OR GPUBufferUsage_COPY_DST)]
          else [])
     \<and> (reaches_transforms k this scene
          \<and> length (selected k this scene) * 16 * 4 > current_model_transforms_size this \<longrightarrow>
          (\<exists>b. model_transforms (fst (snd (render k fr this scene sys))) = Some b
             \<and> buffer_id b = next_buffer_id sys
             \<and> buffer_size b = length (selected k this scene) * 16 * 4
             \<and> contents b = pack_model_transforms fr (selected k this scene)))
     \<and> (\<not> (reaches_transforms k this scene
             \<and> length (selected k this scene) * 16 * 4 > current_model_transforms_size this) \<longrightarrow>
          current_model_transforms_size (fst (snd (render k fr this scene sys)))
            = current_model_transforms_size this)"
proof -
  let ?n = "length (selected k this scene)"
  let ?d = "pack_model_transforms fr (selected k this scene)"
  let ?this' = "fst (snd (render k fr this scene sys))"
  have len: "4 * length ?d = ?n * 16 * 4"
    by (simp add: pack_model_transforms_length [OF wf])
  from render_events [of k fr this scene sys] obtain es where
    "events (snd (snd (render k fr this scene sys))) = events sys @ es"
    and f: "filter is_realloc_event es =
         (if reaches_transforms k this scene \<and> ?n * 16 * 4 > current_model_transforms_size this
          then destroy_events this @
               [CreateBuffer (next_buffer_id sys) (4 * length ?d) ?d
                  (GPUBufferUsage_STORAGE OR GPUBufferUsage_COPY_DST)]
          else [])"
    by blast
  from recorded_append [OF this(1)] have rec: "recorded sys (snd (snd (render k fr this scene sys))) = es" .
  have ev: "filter is_realloc_event (recorded sys (snd (snd (render k fr this scene sys)))) =
         (if reaches_transforms k this scene \<and> ?n * 16 * 4 > current_model_transforms_size this
          then (case model_transforms this of
                  None \<Rightarrow> []
                | Some old \<Rightarrow> [DestroyBuffer (buffer_id old)])
               @ [CreateBuffer (next_buffer_id sys) (?n * 16 * 4) ?d
                    (GPUBufferUsage_STORAGE OR GPUBufferUsage_COPY_DST)]
          else [])"
    unfolding rec f len destroy_events_def ..
  have new: "\<exists>b. model_transforms ?this' = Some b \<and> buffer_id b = next_buffer_id sys
             \<and> buffer_size b = ?n * 16 * 4 \<and> contents b = ?d"
    if "reaches_transforms k this scene" "?n * 16 * 4 > current_model_transforms_size this"
    using that len
    by (simp add: render_transform_buffer transform_buffer_after_def the_new_buffer_def)
  have same: "current_model_transforms_size ?this' = current_model_transforms_size this"
    if "\<not> (reaches_transforms k this scene \<and> ?n * 16 * 4 > current_model_transforms_size this)"
  proof (cases "reaches_transforms k this scene")
    case True
    with that have "\<not> ?n * 16 * 4 > current_model_transforms_size this" by simp
    with True show ?thesis
      by (cases "model_transforms this")
        (simp_all add: render_transform_buffer transform_buffer_after_def
          current_model_transforms_size_def overwrite_size)
  next
    case False
    then show ?thesis
      by (simp add: render_transform_buffer current_model_transforms_size_def)
  qed
  from render_frames_capacity [OF frames] render_capacity [OF wf] ev new same
  show ?thesis by blast
qed

subsection \<open>The frames of the examples\<close>

lemma ex_wf_objects: "wf_objects ex_scene" "wf_objects ex_scene_one"
  by (simp_all add: wf_objects_def mat4_def ex_scene_def ex_scene_one_def ex_scene_of_def
      ex_object_def)

lemma ex_scene_selected:
  "selected label_key this ex_scene = [ex_object ''default_3d'' 3, ex_object ''default_3d'' 4]"
  "selected label_key this ex_scene_one = [ex_object ''default_3d'' 5]"
  by (simp_all add: ex_scene_def ex_scene_one_def ex_selected ex_object_def)

lemma ex_scene_reaches:
  "reaches_transforms label_key this ex_scene" "reaches_transforms label_key this ex_scene_one"
  by (simp_all add: ex_scene_def ex_scene_one_def ex_reaches ex_object_def)

lemma ex_pipeline_after_transforms:
  "model_transforms ex_pipeline_after
     = Some (the_new_buffer (pack_model_transforms id (selected label_key ex_pipeline ex_scene)) 11)"
  by (simp add: ex_pipeline_after_def render_transform_buffer ex_scene_reaches ex_scene_selected
      transform_buffer_after_def)
    (simp add: ex_pipeline_eq ex_sys1_eq current_model_transforms_size_def)

lemma ex_pipeline_after_size: "current_model_transforms_size ex_pipeline_after = 128"
  using pack_model_transforms_length [OF ex_wf_objects(1), of id label_key ex_pipeline]
  by (simp add: current_model_transforms_size_def ex_pipeline_after_transforms the_new_buffer_def
      ex_scene_selected)

theorem transform_buffer_grows_only_witness:
  "list_all wf_objects [ex_scene, ex_scene_one] \<and> wf_objects ex_scene
   \<and> current_model_transforms_size ex_pipeline
       \<le> current_model_transforms_size
           (fst (render_frames label_key id ex_pipeline ex_sys1 [ex_scene, ex_scene_one]))
   \<and> (\<exists>b. model_transforms (fst (snd (render label_key id ex_pipeline ex_scene ex_sys1))) = Some b
         \<and> buffer_size b = 128)"
proof -
  have f: "list_all wf_objects [ex_scene, ex_scene_one]" and w: "wf_objects ex_scene"
    by (simp_all add: ex_wf_objects)
  have g: "reaches_transforms label_key ex_pipeline ex_scene
      \<and> length (selected label_key ex_pipeline ex_scene) * 16 * 4
          > current_model_transforms_size ex_pipeline"
    by (simp add: ex_scene_reaches ex_scene_selected)
      (simp add: current_model_transforms_size_def ex_pipeline_eq)
  have n: "length (selected label_key ex_pipeline ex_scene) * 16 * 4 = 128"
    by (simp add: ex_scene_selected)
  note t = transform_buffer_grows_only [OF f w, of ex_pipeline label_key id ex_sys1]
  from t have "current_model_transforms_size ex_pipeline
       \<le> current_model_transforms_size
           (fst (render_frames label_key id ex_pipeline ex_sys1 [ex_scene, ex_scene_one]))"
    by (rule conjunct1)
  moreover from t g have "\<exists>b. model_transforms (fst (snd (render label_key id ex_pipeline ex_scene ex_sys1))) = Some b
             \<and> buffer_id b = next_buffer_id ex_sys1
             \<and> buffer_size b = length (selected label_key ex_pipeline ex_scene) * 16 * 4
             \<and> contents b = pack_model_transforms id (selected label_key ex_pipeline ex_scene)"
    by blast
  ultimately show ?thesis
    using f w n by auto
qed

text \<open>
  Claim C5. In every call that reaches line 221 with a needed size of at most the
  capacity, the transform buffer is kept: the pipeline holds the same buffer, of the
  same size, afterwards; no buffer is destroyed or created; the packed transforms are
  written into it at offset 0; and what the buffer held beyond the written range is
  still there. Model matrices are taken to have 16 floats, as \<^verbatim>\<open>mat4\<close> says.
\<close>

theorem transform_buffer_reused_when_large_enough:
  assumes reach: "reaches_transforms k this scene"
    and fits: "length (selected k this scene) * 16 * 4 \<le> current_model_transforms_size this"
    and wf: "wf_objects scene"
  shows "\<exists>b b'. model_transforms this = Some b
       \<and> model_transforms (fst (snd (render k fr this scene sys))) = Some b'
       \<and> buffer_id b' = buffer_id b \<and> buffer_size b' = buffer_size b
       \<and> filter is_realloc_event (recorded sys (snd (snd (render k fr this scene sys)))) = []
       \<and> WriteBuffer (buffer_id b) 0 (pack_model_transforms fr (selected k this scene))
           \<in> set (recorded sys (snd (snd (render k fr this scene sys))))
       \<and> take (length (pack_model_transforms fr (selected k this scene))) (contents b')
           = pack_model_transforms fr (selected k this scene)
       \<and> drop (length (pack_model_transforms fr (selected k this scene))) (contents b')
           = drop (length (pack_model_transforms fr (selected k this scene))) (contents b)"
proof -
  let ?n = "length (selected k this scene)"
  let ?d = "pack_model_transforms fr (selected k this scene)"
  let ?this' = "fst (snd (render k fr this scene sys))"
  let ?rec = "recorded sys (snd (snd (render k fr this scene sys)))"
  from fits have nogrow: "\<not> ?n * 16 * 4 > current_model_transforms_size this" by simp
  from reach have "0 < ?n" by (simp add: reaches_transforms_def)
  then obtain b where b: "model_transforms this = Some b"
    using nogrow by (rule absent_buffer_grows)
  have len: "4 * length ?d = ?n * 16 * 4"
    by (simp add: pack_model_transforms_length [OF wf])
  with fits b have room: "4 * length ?d \<le> buffer_size b"
    by (simp add: current_model_transforms_size_def)
  have after: "model_transforms ?this' = Some (overwrite b 0 ?d)"
    using nogrow by (simp add: render_transform_buffer reach transform_buffer_after_def b)
  from render_events [of k fr this scene sys] reach obtain es rest where
    "events (snd (snd (render k fr this scene sys))) = events sys @ es"
    and f: "filter is_realloc_event es =
         (if reaches_transforms k this scene \<and> ?n * 16 * 4 > current_model_transforms_size this
          then destroy_events this @
               [CreateBuffer (next_buffer_id sys) (4 * length ?d) ?d
                  (GPUBufferUsage_STORAGE OR GPUBufferUsage_COPY_DST)]
          else [])"
    and es: "es = begin_events this scene (selected k this scene ! 0)
             @ transform_events this ?n ?d (next_buffer_id sys) @ rest"
    by blast
  from recorded_append [OF this(1)] have rec: "?rec = es" .
  have none: "filter is_realloc_event ?rec = []"
    using nogrow by (simp add: rec f)
  have "transform_events this ?n ?d (next_buffer_id sys) = [WriteBuffer (buffer_id b) 0 ?d]"
    using nogrow by (simp add: transform_events_def b)
  then have wr: "WriteBuffer (buffer_id b) 0 ?d \<in> set ?rec"
    by (simp add: rec es)
  have c: "contents (overwrite b 0 ?d) = ?d @ drop (length ?d) (contents b)"
    by (rule overwrite_fits [OF room])
  show ?thesis
    by (intro exI [of _ b] exI [of _ "overwrite b 0 ?d"])
      (simp add: b after overwrite_id overwrite_size none wr c)
qed

theorem transform_buffer_reused_when_large_enough_witness:
  "reaches_transforms label_key ex_pipeline_after ex_scene_one
   \<and> length (selected label_key ex_pipeline_after ex_scene_one) * 16 * 4
       \<le> current_model_transforms_size ex_pipeline_after
   \<and> wf_objects ex_scene_one
   \<and> (\<exists>b'. model_transforms
              (fst (snd (render label_key id ex_pipeline_after ex_scene_one ex_sys_after))) = Some b'
         \<and> buffer_id b' = 11 \<and> buffer_size b' = 128
         \<and> take 16 (contents b') = [1, 0, 0, 0, 0, 1, 0, 0, 0, 0, 1, 0, 5, 0, 0, 1]
         \<and> drop 16 (contents b') = [1, 0, 0, 0, 0, 1, 0, 0, 0, 0, 1, 0, 4, 0, 0, 1])"
proof -
  have r: "reaches_transforms label_key ex_pipeline_after ex_scene_one"
    by (rule ex_scene_reaches)
  have s: "length (selected label_key ex_pipeline_after ex_scene_one) * 16 * 4
       \<le> current_model_transforms_size ex_pipeline_after"
    by (simp add: ex_scene_selected ex_pipeline_after_size)
  have w: "wf_objects ex_scene_one"
    by (rule ex_wf_objects)
  have p: "pack_model_transforms id (selected label_key ex_pipeline_after ex_scene_one)
      = [1, 0, 0, 0, 0, 1, 0, 0, 0, 0, 1, 0, 5, 0, 0, 1]"
    by (simp add: ex_scene_selected pack_model_transforms_def Float32Array_def ex_object_def)
  have q: "the_new_buffer (pack_model_transforms id (selected label_key ex_pipeline ex_scene)) 11
      = \<lparr>buffer_id = 11, buffer_size = 128,
         contents = [1, 0, 0, 0, 0, 1, 0, 0, 0, 0, 1, 0, 3, 0, 0, 1,
                     1, 0, 0, 0, 0, 1, 0, 0, 0, 0, 1, 0, 4, 0, 0, 1],
         usage = GPUBufferUsage_STORAGE OR GPUBufferUsage_COPY_DST\<rparr>"
    by (simp add: ex_scene_selected pack_model_transforms_def Float32Array_def ex_object_def
        the_new_buffer_def)
  have lp: "length (pack_model_transforms id (selected label_key ex_pipeline_after ex_scene_one)) = 16"
    by (simp add: p)
  from transform_buffer_reused_when_large_enough [OF r s w, of id ex_sys_after]
  obtain b b' :: GPUBuffer where
    b: "model_transforms ex_pipeline_after = Some b" and
    b': "model_transforms (fst (snd (render label_key id ex_pipeline_after ex_scene_one ex_sys_after)))
       = Some b'"
    "buffer_id b' = buffer_id b" "buffer_size b' = buffer_size b"
    "take (length (pack_model_transforms id (selected label_key ex_pipeline_after ex_scene_one)))
       (contents b') = pack_model_transforms id (selected label_key ex_pipeline_after ex_scene_one)"
    "drop (length (pack_model_transforms id (selected label_key ex_pipeline_after ex_scene_one)))
       (contents b')
     = drop (length (pack_model_transforms id (selected label_key ex_pipeline_after ex_scene_one)))
         (contents b)"
    by blast
  from b have "b = \<lparr>buffer_id = 11, buffer_size = 128,
         contents = [1, 0, 0, 0, 0, 1, 0, 0, 0, 0, 1, 0, 3, 0, 0, 1,
                     1, 0, 0, 0, 0, 1, 0, 0, 0, 0, 1, 0, 4, 0, 0, 1],
         usage = GPUBufferUsage_STORAGE OR GPUBufferUsage_COPY_DST\<rparr>"
    by (simp add: ex_pipeline_after_transforms q)
  with b' have "model_transforms
              (fst (snd (render label_key id ex_pipeline_after ex_scene_one ex_sys_after))) = Some b'
         \<and> buffer_id b' = 11 \<and> buffer_size b' = 128
         \<and> take 16 (contents b') = [1, 0, 0, 0, 0, 1, 0, 0, 0, 0, 1, 0, 5, 0, 0, 1]
         \<and> drop 16 (contents b') = [1, 0, 0, 0, 0, 1, 0, 0, 0, 0, 1, 0, 4, 0, 0, 1]"
    unfolding lp by (simp add: p)
  with r s w show ?thesis by blast
qed

section \<open>The pipeline key\<close>

lemma construct_pipeline_shader_path:
  "shader_path (fst (construct_pipeline path gp sys)) = path"
  by (simp add: construct_pipeline_def create_gpu_buffer_def Let_def)

lemma render_shader_path:
  "shader_path (fst (snd (render k fr this scene sys))) = shader_path this"
proof (cases "reaches_transforms k this scene")
  case True
  from render_reaches [OF True, of fr sys] show ?thesis
    by (auto simp: bind_and_draw_shader_path)
next
  case False
  show ?thesis
  proof (cases "selected k this scene = [] \<or> texture_view scene = None \<or> depth_texture_view scene = None")
    case True
    then show ?thesis by (simp add: render_skip)
  next
    case nskip: False
    then obtain tv dv where v: "selected k this scene \<noteq> []" "texture_view scene = Some tv"
      "depth_texture_view scene = Some dv" by auto
    with False have "\<not> textures_resolve scene (selected k this scene ! 0)"
      by (simp add: reaches_transforms_def)
    from render_rejected [OF v this, of fr sys] show ?thesis by auto
  qed
qed

lemma render_frames_shader_path:
  "shader_path (fst (render_frames k fr this sys scs)) = shader_path this"
proof (induction scs arbitrary: this sys)
  case Nil
  then show ?case by simp
next
  case (Cons sc scs)
  obtain r this' sys' where r: "render k fr this sc sys = (r, this', sys')"
    by (cases "render k fr this sc sys") auto
  from render_shader_path [of k fr this sc sys] r have "shader_path this' = shader_path this"
    by simp
  with Cons.IH [of this' sys'] show ?case by (simp add: r)
qed

text \<open>
  Claim C10. The key of a pipeline instance is derived from its shader identifier
  alone, by \<^const>\<open>get_pipeline_key\<close>, which takes no device. An instance constructed
  from a shader identifier has the key of that identifier, and keeps it over every
  sequence of frames: \<^verbatim>\<open>render\<close> never changes the shader path. So any two instances
  constructed from one shader identifier, on whatever device state, with whatever
  compiled pipeline and after whatever frames, have the same key, and select the
  objects that carry it.
\<close>

theorem pipeline_key_determined_by_shader:
  "pipeline_key_of k (fst (construct_pipeline path gp sys)) = get_pipeline_key k path
   \<and> pipeline_key_of k
        (fst (render_frames k fr (fst (construct_pipeline path gp sys)) sys' scs))
     = get_pipeline_key k path
   \<and> pipeline_key_of k
        (fst (render_frames k fr (fst (construct_pipeline path gp sys)) sys' scs))
     = pipeline_key_of k
        (fst (render_frames k fr2 (fst (construct_pipeline path gp2 sys2)) sys2' scs2))
   \<and> selected k (fst (construct_pipeline path gp sys)) scene
     = filter (\<lambda>obj. pipeline_key obj = get_pipeline_key k path) (objects scene)"
  by (simp add: pipeline_key_of_def render_frames_shader_path construct_pipeline_shader_path
      selected_def)

theorem pipeline_key_determined_by_shader_witness:
  "pipeline_key_of label_key
     (fst (render_frames label_key id (fst (construct_pipeline ''shader.wgsl'' 7 ex_sys))
             ex_sys1 [ex_scene]))
   = pipeline_key_of label_key
       (fst (render_frames label_key id (fst (construct_pipeline ''shader.wgsl'' 8 ex_sys1))
               ex_sys_after [ex_scene_one, ex_scene]))"
  by (rule pipeline_key_determined_by_shader [THEN conjunct2, THEN conjunct2, THEN conjunct1])

end
